theory Spec2Isabelle
  imports Complex_Main "HOL-Library.AList" "HOL-Library.Multiset"
begin

section \<open>Data model\<close>

text \<open>
  The socket server keeps three module-level JavaScript \<open>Map\<close>s: \<open>activeSessions\<close> and
  \<open>sessionClients\<close> (store/sessionStore.js) and \<open>escalatedCalls\<close> (store/escalationStore.js).
  A JavaScript \<open>Map\<close> iterates in insertion order and \<open>set\<close> on a present key replaces the
  value in place, so each is an association list handled with \<open>AList.update\<close> (replace in
  place, else append) and \<open>AList.delete\<close>.

  Conversation histories are JavaScript arrays, held by reference: the same array object can
  be reachable from a session and from an escalation. They live in an explicit store
  \<open>arrays\<close> from references to turn lists, with \<open>nextRef\<close> the next unused reference.
  Session and escalation objects are only ever reached through their \<open>Map\<close>, so they are
  kept by value inside the association lists.

  Numbers (confidence scores, latencies) are JavaScript doubles. A finite double is
  represented by its exact value, a rational; comparisons of doubles are then comparisons
  of rationals. The source's \<open>+\<close> and \<open>/\<close> give the exact result rounded to a double: the
  functions that compute with numbers take the rounding \<open>rnd\<close> as a parameter, and
  \<open>round_double\<close> below is the rounding of IEEE 754 binary64 (to nearest, ties to even).
  \<open>NaN\<close> and the infinities are not values of the model; \<open>-0\<close> is \<open>0\<close>.
  \<open>undefined\<close> and \<open>null\<close> are both \<open>None\<close>.
  Wall-clock reads (\<open>new Date().toISOString()\<close>) and generated identifiers are parameters.
\<close>

type_synonym ref = nat

type_synonym ws = nat

record turn =
  sender :: string
  msg_text :: string
  timestamp :: "string option"
  confidence :: "rat option"
  tool :: "string option"

record chunk =
  chunk_data :: string
  chunk_index :: int
  chunk_timestamp :: nat

record session =
  session_id :: string
  session_type :: string
  startTime :: string
  audioChunks :: "chunk list"
  chatHistory :: ref

record transcript_stats =
  totalTurns :: nat
  userMessages :: nat
  botMessages :: nat
  lowConfidenceCount :: nat
  stats_avgConfidence :: "rat option"

record escalation =
  escalation_id :: string
  sessionId :: string
  escalation_type :: string
  reason :: string
  history :: ref
  metrics :: "(string \<times> rat) list"
  avgConfidence :: "rat option"
  summary :: string
  status :: string
  createdAt :: string
  resolvedAt :: "string option"
  resolvedBy :: "string option"
  customerPhone :: "string option"
  customerName :: "string option"
  stats :: transcript_stats

record store =
  activeSessions :: "(string \<times> session) list"
  sessionClients :: "(string \<times> ws) list"
  escalatedCalls :: "(string \<times> escalation) list"
  arrays :: "ref \<Rightarrow> turn list"
  nextRef :: ref

definition emptyStore :: store where
  "emptyStore = \<lparr>activeSessions = [], sessionClients = [], escalatedCalls = [],
                 arrays = (\<lambda>_. []), nextRef = 0\<rparr>"

text \<open>Messages the server emits, and the two ways it emits them (utils/broadcaster.js).
  A payload is serialised when it is sent, so an escalation travels with the contents its
  history array has at that moment.\<close>

datatype event =
    ERROR string
  | SESSION_STARTED session
  | SESSION_ENDED string
  | ESCALATION_EXISTS string
  | ESCALATION_TRIGGERED string string
  | ESCALATION_NEW escalation "turn list"
  | ESCALATION_UPDATED escalation "turn list"
  | ESCALATION_RESOLVED string string
  | ESCALATION_RESOLVED_NOTICE string string

datatype action = SendToClient ws event | Broadcast event

section \<open>Double-precision numbers\<close>

text \<open>The doubles that the literals \<open>0.7\<close>, \<open>0.9\<close>, \<open>0.3\<close>, \<open>0.1\<close> and \<open>0.2\<close> denote
  (\<open>0.5\<close> is exactly \<open>1 / 2\<close>).\<close>

definition double_0_7 :: rat where
  "double_0_7 = 3152519739159347 / 4503599627370496"

definition double_0_9 :: rat where
  "double_0_9 = 8106479329266893 / 9007199254740992"

definition double_0_3 :: rat where
  "double_0_3 = 5404319552844595 / 18014398509481984"

definition double_0_1 :: rat where
  "double_0_1 = 3602879701896397 / 36028797018963968"

definition double_0_2 :: rat where
  "double_0_2 = 3602879701896397 / 18014398509481984"

text \<open>Rounding to the nearest double, ties to even: a positive \<open>x\<close> with
  \<open>2 ^ e \<le> x < 2 ^ (e + 1)\<close> is rounded to a multiple of \<open>2 ^ (e - 52)\<close>, and below
  \<open>2 ^ - 1022\<close> (subnormal numbers) to a multiple of \<open>2 ^ - 1074\<close>. A result beyond the
  largest double, where the source has an infinity, is outside the model.\<close>

function bit_length :: "int \<Rightarrow> int" where
  "bit_length n = (if n \<le> 0 then 0 else 1 + bit_length (n div 2))"
  by pat_completeness auto
termination
  by (relation "measure nat") auto

definition pow2 :: "int \<Rightarrow> rat" where
  "pow2 e = (if 0 \<le> e then 2 ^ nat e else 1 / 2 ^ nat (- e))"

definition exponent :: "rat \<Rightarrow> int" where
  "exponent x =
    (let (n, d) = quotient_of x;
         e0 = bit_length n - bit_length d
     in if pow2 e0 \<le> x then e0 else e0 - 1)"

definition round_half_even :: "rat \<Rightarrow> int" where
  "round_half_even x =
    (let f = \<lfloor>x\<rfloor>; d = x - of_int f
     in if d < 1 / 2 then f else if 1 / 2 < d then f + 1
        else if even f then f else f + 1)"

definition round_double :: "rat \<Rightarrow> rat" where
  "round_double x =
    (if x = 0 then 0
     else let a = \<bar>x\<bar>;
              e = max (exponent a) (- 1022);
              ulp = pow2 (e - 52)
          in sgn x * of_int (round_half_even (a / ulp)) * ulp)"

section \<open>JavaScript truthiness\<close>

text \<open>\<open>v || d\<close> on an optional string: \<open>undefined\<close>, \<open>null\<close> and \<open>""\<close> are falsy.\<close>

definition or_string :: "string option \<Rightarrow> string \<Rightarrow> string" where
  "or_string v d = (case v of None \<Rightarrow> d | Some x \<Rightarrow> if x = [] then d else x)"

text \<open>\<open>v || null\<close> on an optional string.\<close>

definition or_null_string :: "string option \<Rightarrow> string option" where
  "or_null_string v = (case v of None \<Rightarrow> None | Some x \<Rightarrow> if x = [] then None else Some x)"

text \<open>\<open>v || null\<close> on an optional number: \<open>undefined\<close>, \<open>null\<close> and \<open>0\<close> are falsy.\<close>

definition or_null_number :: "rat option \<Rightarrow> rat option" where
  "or_null_number v = (case v of None \<Rightarrow> None | Some x \<Rightarrow> if x = 0 then None else Some x)"

section \<open>Session store (store/sessionStore.js)\<close>

definition createSession :: "string \<Rightarrow> string \<Rightarrow> ws \<Rightarrow> string \<Rightarrow> store \<Rightarrow> session \<times> store" where
  "createSession i sessionType w now s =
    (let session = \<lparr>session_id = i, session_type = sessionType, startTime = now,
                    audioChunks = [], chatHistory = nextRef s\<rparr>
     in (session,
         s\<lparr>activeSessions := AList.update i session (activeSessions s),
           sessionClients := AList.update i w (sessionClients s),
           arrays := (arrays s)(nextRef s := []),
           nextRef := Suc (nextRef s)\<rparr>))"

definition getSession :: "string \<Rightarrow> store \<Rightarrow> session option" where
  "getSession i s = map_of (activeSessions s) i"

definition hasSession :: "string \<Rightarrow> store \<Rightarrow> bool" where
  "hasSession i s = (map_of (activeSessions s) i \<noteq> None)"

definition deleteSession :: "string \<Rightarrow> store \<Rightarrow> store" where
  "deleteSession i s =
    s\<lparr>activeSessions := AList.delete i (activeSessions s),
      sessionClients := AList.delete i (sessionClients s)\<rparr>"

definition getAllSessions :: "store \<Rightarrow> session list" where
  "getAllSessions s = map snd (activeSessions s)"

definition getSessionClient :: "string \<Rightarrow> store \<Rightarrow> ws option" where
  "getSessionClient i s = map_of (sessionClients s) i"

definition addAudioChunk :: "string \<Rightarrow> chunk \<Rightarrow> store \<Rightarrow> store" where
  "addAudioChunk sid c s =
    (case map_of (activeSessions s) sid of
       Some session \<Rightarrow>
         s\<lparr>activeSessions :=
             AList.update sid (session\<lparr>audioChunks := audioChunks session @ [c]\<rparr>)
               (activeSessions s)\<rparr>
     | None \<Rightarrow> s)"

definition getAndClearAudioChunks :: "string \<Rightarrow> store \<Rightarrow> chunk list \<times> store" where
  "getAndClearAudioChunks sid s =
    (case map_of (activeSessions s) sid of
       Some session \<Rightarrow>
         (audioChunks session,
          s\<lparr>activeSessions :=
              AList.update sid (session\<lparr>audioChunks := []\<rparr>) (activeSessions s)\<rparr>)
     | None \<Rightarrow> ([], s))"

text \<open>The object \<open>addChatMessage\<close> pushes: the message's own fields, then \<open>timestamp\<close>,
  \<open>confidence\<close> and \<open>tool\<close> overwritten with \<open>message.timestamp || now\<close>,
  \<open>message.confidence || null\<close> and \<open>message.tool || null\<close>.\<close>

definition pushedMessage :: "string \<Rightarrow> turn \<Rightarrow> turn" where
  "pushedMessage now message =
    message\<lparr>timestamp := Some (or_string (timestamp message) now),
            confidence := or_null_number (confidence message),
            tool := or_null_string (tool message)\<rparr>"

definition addChatMessage :: "string \<Rightarrow> turn \<Rightarrow> string \<Rightarrow> store \<Rightarrow> store" where
  "addChatMessage sid message now s =
    (case map_of (activeSessions s) sid of
       Some session \<Rightarrow>
         s\<lparr>arrays := (arrays s)(chatHistory session :=
                        arrays s (chatHistory session) @ [pushedMessage now message])\<rparr>
     | None \<Rightarrow> s)"

text \<open>\<open>getSessionHistory\<close> hands out the session's own array (no copy); for an unknown
  session it returns a new empty array.\<close>

definition getSessionHistory :: "string \<Rightarrow> store \<Rightarrow> ref \<times> store" where
  "getSessionHistory sid s =
    (case map_of (activeSessions s) sid of
       Some session \<Rightarrow> (chatHistory session, s)
     | None \<Rightarrow> (nextRef s, s\<lparr>arrays := (arrays s)(nextRef s := []), nextRef := Suc (nextRef s)\<rparr>))"

text \<open>The turns a reader of \<open>getSessionHistory\<close> sees.\<close>

definition historyContents :: "string \<Rightarrow> store \<Rightarrow> turn list" where
  "historyContents sid s = (case getSessionHistory sid s of (r, s') \<Rightarrow> arrays s' r)"

text \<open>Appending a sequence of turns, each with the clock reading of its call.\<close>

definition addChatMessages :: "string \<Rightarrow> (string \<times> turn) list \<Rightarrow> store \<Rightarrow> store" where
  "addChatMessages sid tms s = foldl (\<lambda>st (now, m). addChatMessage sid m now st) s tms"

definition addAudioChunks :: "string \<Rightarrow> chunk list \<Rightarrow> store \<Rightarrow> store" where
  "addAudioChunks sid cs s = foldl (\<lambda>st c. addAudioChunk sid c st) s cs"

section \<open>Session handler (handlers/sessionHandler.js)\<close>

record session_start_msg =
  start_id :: "string option"
  sessionType :: string

text \<open>\<open>message.id || uuidv4()\<close>: the generated identifier \<open>uuid\<close> is a parameter.\<close>

definition handleSessionStart ::
    "session_start_msg \<Rightarrow> ws \<Rightarrow> string \<Rightarrow> string \<Rightarrow> store \<Rightarrow> string \<times> store \<times> action list" where
  "handleSessionStart message w uuid now s =
    (let sid = or_string (start_id message) uuid;
         (session, s') = createSession sid (sessionType message) w now s
     in (sid, s', [Broadcast (SESSION_STARTED session)]))"

text \<open>\<open>message.id\<close> of a \<open>SESSION_END\<close>; an absent id is no key of the map.\<close>

definition handleSessionEnd :: "string option \<Rightarrow> store \<Rightarrow> store \<times> action list" where
  "handleSessionEnd mid s =
    (case mid of
       None \<Rightarrow> (s, [])
     | Some i \<Rightarrow>
         if hasSession i s then (deleteSession i s, [Broadcast (SESSION_ENDED i)])
         else (s, []))"

definition cleanupSession :: "string option \<Rightarrow> store \<Rightarrow> store \<times> action list" where
  "cleanupSession sid s =
    (case sid of
       None \<Rightarrow> (s, [])
     | Some i \<Rightarrow>
         if i \<noteq> [] \<and> hasSession i s then (deleteSession i s, [Broadcast (SESSION_ENDED i)])
         else (s, []))"

section \<open>Audio forwarding (services/pythonBackend.js)\<close>

text \<open>\<open>combinedAudio\<close> of \<open>forwardAudioToPython\<close>:
  \<open>audioChunks.sort((a, b) => a.index - b.index).map(chunk => chunk.data).join('')\<close>.
  \<open>Array.prototype.sort\<close> is stable, as \<open>sort_key\<close> is.\<close>

definition combinedAudio :: "chunk list \<Rightarrow> string" where
  "combinedAudio cs = concat (map chunk_data (sort_key chunk_index cs))"

datatype backend_error = BackendNotConfigured

text \<open>The request to the Python backend is commented out in the source: after computing
  \<open>combinedAudio\<close> the function throws.\<close>

definition forwardAudioToPython :: "string \<Rightarrow> chunk list \<Rightarrow> backend_error + unit" where
  "forwardAudioToPython sid cs = (let c = combinedAudio cs in Inl BackendNotConfigured)"

section \<open>Escalation store (store/escalationStore.js)\<close>

text \<open>The regular expressions of \<open>generateQuickSummary\<close> are alternations of lower-case
  ASCII words with the \<open>i\<close> flag: \<open>pattern.test(allText)\<close> holds when one of the words
  occurs in the text with ASCII letter case ignored. Characters stand for the code units of
  the JavaScript string (text outside Latin-1 is not represented).\<close>

definition lower_char :: "char \<Rightarrow> char" where
  "lower_char c =
    (let n = (of_char c :: nat) in if 65 \<le> n \<and> n \<le> 90 then char_of (n + 32) else c)"

fun starts_with :: "string \<Rightarrow> string \<Rightarrow> bool" where
  "starts_with [] ys = True"
| "starts_with (x # xs) [] = False"
| "starts_with (x # xs) (y # ys) = (x = y \<and> starts_with xs ys)"

fun occurs_in :: "string \<Rightarrow> string \<Rightarrow> bool" where
  "occurs_in p [] = (p = [])"
| "occurs_in p (y # ys) = (starts_with p (y # ys) \<or> occurs_in p ys)"

definition pattern_test :: "string list \<Rightarrow> string \<Rightarrow> bool" where
  "pattern_test alternatives allText =
     list_ex (\<lambda>w. occurs_in w (map lower_char allText)) alternatives"

definition keywordPatterns :: "(string list \<times> string) list" where
  "keywordPatterns =
    [([''invoice'', ''bill'', ''payment'', ''paisa''], ''Invoice/Payment''),
     ([''battery'', ''swap'', ''charge''], ''Battery/Swap''),
     ([''station'', ''location'', ''nearest''], ''Station Location''),
     ([''problem'', ''issue'', ''help'', ''complaint''], ''Support Issue''),
     ([''penalty'', ''fine'', ''late''], ''Penalty Inquiry'')]"

fun join :: "string \<Rightarrow> string list \<Rightarrow> string" where
  "join sep [] = []"
| "join sep [x] = x"
| "join sep (x # y # ys) = x @ sep @ join sep (y # ys)"

definition generateQuickSummary :: "turn list \<Rightarrow> string" where
  "generateQuickSummary h =
    (if h = [] then ''No conversation history available.''
     else
       let userTexts = map msg_text (filter (\<lambda>m. sender m = ''user'') h);
           lastUserMessage = (if userTexts = [] then [] else last userTexts);
           allText = join '' '' userTexts;
           keywords = map snd (filter (\<lambda>kp. pattern_test (fst kp) allText) keywordPatterns);
           topicsStr = (if length keywords > 0 then join '', '' keywords
                        else ''General inquiry'')
       in ''Customer discussed: '' @ topicsStr @ ''. Last message: '' @ [CHR 0x22] @
          take 100 lastUserMessage @
          (if length lastUserMessage > 100 then ''...'' else []) @ [CHR 0x22])"

text \<open>The local constants of \<open>createEscalation\<close>.\<close>

definition userMessagesOf :: "turn list \<Rightarrow> turn list" where
  "userMessagesOf h = filter (\<lambda>m. sender m = ''user'') h"

definition confidenceScores :: "turn list \<Rightarrow> rat list" where
  "confidenceScores h =
     map the (filter (\<lambda>c. c \<noteq> None) (map confidence (userMessagesOf h)))"

text \<open>\<open>confidenceScores.reduce((a, b) => a + b, 0) / confidenceScores.length\<close>: every sum
  and the quotient are rounded.\<close>

definition calculatedAvgConfidence :: "(rat \<Rightarrow> rat) \<Rightarrow> turn list \<Rightarrow> rat option" where
  "calculatedAvgConfidence rnd h =
    (if length (confidenceScores h) > 0
     then Some (rnd (foldl (\<lambda>a b. rnd (a + b)) 0 (confidenceScores h)
                     / of_nat (length (confidenceScores h))))
     else None)"

record escalation_params =
  p_sessionId :: string
  p_type :: string
  p_reason :: string
  p_history :: "ref option"
  p_metrics :: "(string \<times> rat) list option"
  p_avgConfidence :: "rat option"
  p_summary :: "string option"
  p_customerPhone :: "string option"
  p_customerName :: "string option"

text \<open>\<open>escalationId\<close> stands for \<open>esc_${Date.now()}_${random}\<close>. The stored \<open>history\<close> is
  the array passed in, not a copy; only an absent \<open>history\<close> gets a new empty array.\<close>

definition createEscalation ::
    "(rat \<Rightarrow> rat) \<Rightarrow> string \<Rightarrow> string \<Rightarrow> escalation_params \<Rightarrow> store
       \<Rightarrow> escalation \<times> store" where
  "createEscalation rnd escalationId now params s =
    (let h = (case p_history params of Some r \<Rightarrow> arrays s r | None \<Rightarrow> []);
         (href, s1) = (case p_history params of
                         Some r \<Rightarrow> (r, s)
                       | None \<Rightarrow> (nextRef s, s\<lparr>arrays := (arrays s)(nextRef s := []),
                                              nextRef := Suc (nextRef s)\<rparr>));
         e = \<lparr>escalation_id = escalationId,
              sessionId = p_sessionId params,
              escalation_type = p_type params,
              reason = p_reason params,
              history = href,
              metrics = (case p_metrics params of Some m \<Rightarrow> m | None \<Rightarrow> []),
              avgConfidence = (case p_avgConfidence params of
                                 Some a \<Rightarrow> Some a
                               | None \<Rightarrow> calculatedAvgConfidence rnd h),
              summary = or_string (p_summary params) (generateQuickSummary h),
              status = ''pending'',
              createdAt = now,
              resolvedAt = None,
              resolvedBy = None,
              customerPhone = or_null_string (p_customerPhone params),
              customerName = or_null_string (p_customerName params),
              stats = \<lparr>totalTurns = length h,
                        userMessages = length (userMessagesOf h),
                        botMessages = length (filter (\<lambda>m. sender m = ''bot'') h),
                        lowConfidenceCount =
                          length (filter (\<lambda>c. c < double_0_7) (confidenceScores h)),
                        stats_avgConfidence = calculatedAvgConfidence rnd h\<rparr>\<rparr>
     in (e, s1\<lparr>escalatedCalls := AList.update escalationId e (escalatedCalls s1)\<rparr>))"

definition getEscalation :: "string \<Rightarrow> store \<Rightarrow> escalation option" where
  "getEscalation i s = map_of (escalatedCalls s) i"

definition getAllEscalations :: "string option \<Rightarrow> store \<Rightarrow> escalation list" where
  "getAllEscalations st s =
    (case st of
       None \<Rightarrow> map snd (escalatedCalls s)
     | Some x \<Rightarrow> if x = [] then map snd (escalatedCalls s)
                else filter (\<lambda>e. status e = x) (map snd (escalatedCalls s)))"

definition getPendingEscalations :: "store \<Rightarrow> escalation list" where
  "getPendingEscalations s = filter (\<lambda>e. status e \<noteq> ''resolved'') (map snd (escalatedCalls s))"

definition addMessageToEscalation :: "string \<Rightarrow> turn \<Rightarrow> string \<Rightarrow> store \<Rightarrow> store" where
  "addMessageToEscalation i message now s =
    (case map_of (escalatedCalls s) i of
       Some e \<Rightarrow>
         s\<lparr>arrays := (arrays s)(history e :=
                        arrays s (history e) @ [message\<lparr>timestamp := Some now\<rparr>])\<rparr>
     | None \<Rightarrow> s)"

definition updateEscalationStatus ::
    "string \<Rightarrow> string \<Rightarrow> string option \<Rightarrow> string \<Rightarrow> store \<Rightarrow> escalation option \<times> store" where
  "updateEscalationStatus i st by_whom now s =
    (case map_of (escalatedCalls s) i of
       Some e \<Rightarrow>
         (let e1 = e\<lparr>status := st\<rparr>;
              e2 = (if st = ''resolved''
                    then e1\<lparr>resolvedAt := Some now, resolvedBy := by_whom\<rparr> else e1)
          in (Some e2, s\<lparr>escalatedCalls := AList.update i e2 (escalatedCalls s)\<rparr>))
     | None \<Rightarrow> (None, s))"

definition deleteEscalation :: "string \<Rightarrow> store \<Rightarrow> store" where
  "deleteEscalation i s = s\<lparr>escalatedCalls := AList.delete i (escalatedCalls s)\<rparr>"

definition getEscalationBySessionId :: "string \<Rightarrow> store \<Rightarrow> escalation option" where
  "getEscalationBySessionId sid s =
     find (\<lambda>e. sessionId e = sid) (map snd (escalatedCalls s))"

section \<open>Escalation handler (handlers/escalationHandler.js)\<close>

text \<open>The \<open>ESCALATE\<close> message after \<open>JSON.parse\<close>: \<open>fullHistory\<close>, when present, is an array
  of the message's own, already in the store.\<close>

record escalate_msg =
  m_reason :: "string option"
  m_metrics :: "(string \<times> rat) list option"
  m_avgConfidence :: "rat option"
  m_summary :: "string option"
  m_fullHistory :: "ref option"
  m_customerPhone :: "string option"
  m_customerName :: "string option"

text \<open>\<open>sessionId\<close> is the connection's \<open>clientSessionId\<close> (\<open>null\<close> before a
  \<open>SESSION_START\<close>). The branch for a session that \<open>hasSession\<close> reports and \<open>getSession\<close>
  does not find stands for the \<open>TypeError\<close> of \<open>session.type\<close>, which the dispatcher
  catches and logs; both read the same map, so it is never taken.\<close>

definition handleEscalation ::
    "(rat \<Rightarrow> rat) \<Rightarrow> escalate_msg \<Rightarrow> ws \<Rightarrow> string option \<Rightarrow> string \<Rightarrow> string \<Rightarrow> store
       \<Rightarrow> escalation option \<times> store \<times> action list" where
  "handleEscalation rnd message w sid escalationId now s =
    (case sid of
       None \<Rightarrow> (None, s, [SendToClient w (ERROR ''No active session'')])
     | Some i \<Rightarrow>
        if i = [] \<or> \<not> hasSession i s
        then (None, s, [SendToClient w (ERROR ''No active session'')])
        else
          (case getEscalationBySessionId i s of
             Some existingEscalation \<Rightarrow>
               (None, s,
                [SendToClient w (ESCALATION_EXISTS (escalation_id existingEscalation))])
           | None \<Rightarrow>
              (case getSession i s of
                 None \<Rightarrow> (None, s, [])
               | Some session \<Rightarrow>
                  (let (hist, s1) = (case m_fullHistory message of
                                       Some r \<Rightarrow> (r, s)
                                     | None \<Rightarrow> getSessionHistory i s);
                       s2 = (case m_fullHistory message of
                               Some r \<Rightarrow>
                                 if length (arrays s1 r) > 0
                                 then addChatMessages i (map (Pair now) (arrays s1 r)) s1
                                 else s1
                             | None \<Rightarrow> s1);
                       (escalation, s3) =
                          createEscalation rnd escalationId now
                            \<lparr>p_sessionId = i,
                             p_type = session_type session,
                             p_reason = or_string (m_reason message)
                                          ''User requested agent assistance'',
                             p_history = Some hist,
                             p_metrics = Some (case m_metrics message of
                                                 Some m \<Rightarrow> m | None \<Rightarrow> []),
                             p_avgConfidence = m_avgConfidence message,
                             p_summary = m_summary message,
                             p_customerPhone = m_customerPhone message,
                             p_customerName = m_customerName message\<rparr> s2
                   in (Some escalation, s3,
                       [SendToClient w
                          (ESCALATION_TRIGGERED (escalation_id escalation)
                             ''Connecting you to an agent...''),
                        Broadcast (ESCALATION_NEW escalation
                                     (arrays s3 (history escalation)))])))))"

text \<open>The \<open>ESCALATE\<close> message as a value, and its arrival: \<open>JSON.parse\<close> builds a new
  array for \<open>fullHistory\<close>, then the dispatcher calls \<open>handleEscalation\<close>. The numbers of
  the value are the doubles that \<open>JSON.parse\<close> yields for the literals of the text.\<close>

record escalate_wire =
  w_reason :: "string option"
  w_metrics :: "(string \<times> rat) list option"
  w_avgConfidence :: "rat option"
  w_summary :: "string option"
  w_fullHistory :: "turn list option"
  w_customerPhone :: "string option"
  w_customerName :: "string option"

definition toMessage :: "escalate_wire \<Rightarrow> ref option \<Rightarrow> escalate_msg" where
  "toMessage wire r =
     \<lparr>m_reason = w_reason wire, m_metrics = w_metrics wire,
      m_avgConfidence = w_avgConfidence wire, m_summary = w_summary wire,
      m_fullHistory = r, m_customerPhone = w_customerPhone wire,
      m_customerName = w_customerName wire\<rparr>"

definition parseEscalate :: "escalate_wire \<Rightarrow> store \<Rightarrow> escalate_msg \<times> store" where
  "parseEscalate wire s =
    (case w_fullHistory wire of
       None \<Rightarrow> (toMessage wire None, s)
     | Some ts \<Rightarrow> (toMessage wire (Some (nextRef s)),
                   s\<lparr>arrays := (arrays s)(nextRef s := ts), nextRef := Suc (nextRef s)\<rparr>))"

definition onEscalate ::
    "(rat \<Rightarrow> rat) \<Rightarrow> escalate_wire \<Rightarrow> ws \<Rightarrow> string option \<Rightarrow> string \<Rightarrow> string \<Rightarrow> store
       \<Rightarrow> escalation option \<times> store \<times> action list" where
  "onEscalate rnd wire w sid escalationId now s =
    (let (message, s1) = parseEscalate wire s
     in handleEscalation rnd message w sid escalationId now s1)"

text \<open>\<open>readyState\<close> gives the state of a connection (1 is \<open>WebSocket.OPEN\<close>).\<close>

definition handleEscalationResolve ::
    "string \<Rightarrow> string option \<Rightarrow> ws \<Rightarrow> (ws \<Rightarrow> nat) \<Rightarrow> string \<Rightarrow> store \<Rightarrow> store \<times> action list" where
  "handleEscalationResolve escalationId by_whom w readyState now s =
    (case updateEscalationStatus escalationId ''resolved''
            (Some (or_string by_whom ''admin'')) now s of
       (None, s1) \<Rightarrow> (s1, [SendToClient w (ERROR ''Escalation not found'')])
     | (Some escalation, s1) \<Rightarrow>
         (s1,
          Broadcast (ESCALATION_RESOLVED escalationId (or_string by_whom ''admin'')) #
          (case getSessionClient (sessionId escalation) s1 of
             Some c \<Rightarrow>
               if readyState c = 1
               then [SendToClient c
                       (ESCALATION_RESOLVED_NOTICE escalationId
                          ''An agent has resolved your request.'')]
               else []
           | None \<Rightarrow> [])))"

definition handleEscalationTake ::
    "string \<Rightarrow> ws \<Rightarrow> string \<Rightarrow> store \<Rightarrow> store \<times> action list" where
  "handleEscalationTake escalationId w now s =
    (case updateEscalationStatus escalationId ''in-progress'' None now s of
       (None, s1) \<Rightarrow> (s1, [SendToClient w (ERROR ''Escalation not found'')])
     | (Some escalation, s1) \<Rightarrow>
         (s1, [Broadcast (ESCALATION_UPDATED escalation (arrays s1 (history escalation)))]))"

section \<open>Client call state machine (voicebot/services/voiceSocket.js, voicebot/page.jsx)\<close>

text \<open>The page state that the voice socket's callbacks drive.\<close>

record page =
  botState :: string
  isConnected :: bool
  connectionError :: "string option"

text \<open>The handler \<open>HomePage\<close> registers with \<open>voiceSocket.onStateChange\<close>.\<close>

definition onStateChangeHandler :: "string \<Rightarrow> page \<Rightarrow> page" where
  "onStateChangeHandler state p =
    (if state = ''connected''
     then p\<lparr>isConnected := True, botState := ''listening'', connectionError := None\<rparr>
     else if state = ''disconnected'' then p\<lparr>isConnected := False\<rparr>
     else if state = ''listening'' then p\<lparr>botState := ''listening''\<rparr>
     else if state = ''processing'' then p\<lparr>botState := ''processing''\<rparr>
     else if state = ''speaking'' then p\<lparr>botState := ''speaking''\<rparr>
     else p)"

text \<open>A data-channel message: its \<open>type\<close>, and \<open>data\<close> that is a string for \<open>log\<close>,
  \<open>error\<close> and \<open>warning\<close> and an array for \<open>fetch_output\<close>.\<close>

datatype dc_data = Text string | Outputs "string list"

record dc_message =
  dc_type :: string
  dc_payload :: dc_data

text \<open>The callbacks of \<open>VoiceSocketService\<close> that \<open>handleDataChannelMessage\<close> itself calls,
  each \<open>null\<close> until registered, acting on the state \<open>'p\<close> of whoever registered them.\<close>

record 'p callbacks =
  onStateChangeCallback :: "(string \<Rightarrow> 'p \<Rightarrow> 'p) option"
  onLogCallback :: "(dc_data \<Rightarrow> 'p \<Rightarrow> 'p) option"
  onErrorCallback :: "(dc_data \<Rightarrow> 'p \<Rightarrow> 'p) option"

text \<open>\<open>handleAdditionalOutputs\<close> (transcript, bot response and tool dispatch of a
  \<open>fetch_output\<close> message) is passed in as \<open>additionalOutputs\<close>.\<close>

definition handleDataChannelMessage ::
    "(dc_data \<Rightarrow> 'p \<Rightarrow> 'p) \<Rightarrow> 'p callbacks \<Rightarrow> dc_message \<Rightarrow> 'p \<Rightarrow> 'p" where
  "handleDataChannelMessage additionalOutputs svc message p =
    (if dc_type message = ''log'' then
       (let p1 = (case onLogCallback svc of Some f \<Rightarrow> f (dc_payload message) p | None \<Rightarrow> p)
        in if dc_payload message = Text ''pause_detected'' then
             (case onStateChangeCallback svc of Some f \<Rightarrow> f ''processing'' p1 | None \<Rightarrow> p1)
           else if dc_payload message = Text ''response_starting'' then
             (case onStateChangeCallback svc of Some f \<Rightarrow> f ''speaking'' p1 | None \<Rightarrow> p1)
           else if dc_payload message = Text ''started_talking'' then
             (case onStateChangeCallback svc of Some f \<Rightarrow> f ''listening'' p1 | None \<Rightarrow> p1)
           else p1)
     else if dc_type message = ''fetch_output'' then additionalOutputs (dc_payload message) p
     else if dc_type message = ''error'' then
       (case onErrorCallback svc of Some f \<Rightarrow> f (dc_payload message) p | None \<Rightarrow> p)
     else p)"

section \<open>Well-formed stores\<close>

text \<open>What every store reachable from \<open>emptyStore\<close> satisfies: the two session maps have
  the same keys in the same order, and every array reference in use has been allocated.\<close>

definition store_inv :: "store \<Rightarrow> bool" where
  "store_inv s \<longleftrightarrow>
     map fst (sessionClients s) = map fst (activeSessions s) \<and>
     list_all (\<lambda>p. chatHistory (snd p) < nextRef s) (activeSessions s) \<and>
     list_all (\<lambda>p. history (snd p) < nextRef s) (escalatedCalls s)"

section \<open>Auxiliary definitions\<close>

text \<open>The turns currently held by the history array of an escalation.\<close>

definition escalationHistory :: "string \<Rightarrow> store \<Rightarrow> turn list option" where
  "escalationHistory i s =
    (case getEscalation i s of Some e \<Rightarrow> Some (arrays s (history e)) | None \<Rightarrow> None)"

text \<open>Names for three parts of \<open>handleEscalation\<close>: the array it passes on as \<open>history\<close>,
  the store after \<open>fullHistory\<close> has been mirrored into the session, and the parameter
  object it builds for \<open>createEscalation\<close>.\<close>

definition historyArg :: "escalate_msg \<Rightarrow> session \<Rightarrow> ref" where
  "historyArg m session = (case m_fullHistory m of Some r \<Rightarrow> r | None \<Rightarrow> chatHistory session)"

definition mirrored :: "escalate_msg \<Rightarrow> string \<Rightarrow> string \<Rightarrow> store \<Rightarrow> store" where
  "mirrored m i now s =
    (case m_fullHistory m of
       Some r \<Rightarrow> if length (arrays s r) > 0
                 then addChatMessages i (map (Pair now) (arrays s r)) s else s
     | None \<Rightarrow> s)"

definition escalationParams ::
    "escalate_msg \<Rightarrow> string \<Rightarrow> session \<Rightarrow> ref \<Rightarrow> escalation_params" where
  "escalationParams message i session hist =
     \<lparr>p_sessionId = i,
      p_type = session_type session,
      p_reason = or_string (m_reason message) ''User requested agent assistance'',
      p_history = Some hist,
      p_metrics = Some (case m_metrics message of Some m \<Rightarrow> m | None \<Rightarrow> []),
      p_avgConfidence = m_avgConfidence message,
      p_summary = m_summary message,
      p_customerPhone = m_customerPhone message,
      p_customerName = m_customerName message\<rparr>"

subsection \<open>The derived statistics as the specification words them\<close>

text \<open>The turns with sender \<open>user\<close> and a non-null confidence; the arithmetic mean of their
  confidence values, \<open>(c1 + ... + cn) / n\<close> as the source language evaluates that expression
  (from the left, every sum and the quotient rounded), and null when there are none; the
  number of them with confidence below 0.70.\<close>

definition spec_qualifying :: "turn list \<Rightarrow> turn list" where
  "spec_qualifying h = filter (\<lambda>m. sender m = ''user'' \<and> confidence m \<noteq> None) h"

fun spec_sum :: "(rat \<Rightarrow> rat) \<Rightarrow> rat list \<Rightarrow> rat" where
  "spec_sum rnd [] = 0"
| "spec_sum rnd (c # cs) = foldl (\<lambda>a b. rnd (a + b)) c cs"

definition spec_avgConfidence :: "(rat \<Rightarrow> rat) \<Rightarrow> turn list \<Rightarrow> rat option" where
  "spec_avgConfidence rnd h =
    (if spec_qualifying h = [] then None
     else Some (rnd (spec_sum rnd (map (\<lambda>m. the (confidence m)) (spec_qualifying h))
                     / of_nat (length (spec_qualifying h)))))"

definition spec_lowConfidenceCount :: "turn list \<Rightarrow> nat" where
  "spec_lowConfidenceCount h =
     length (filter (\<lambda>m. the (confidence m) < double_0_7) (spec_qualifying h))"

text \<open>Every confidence value of a history is a double: rounding leaves it as it is.\<close>

definition confidences_are_doubles :: "(rat \<Rightarrow> rat) \<Rightarrow> turn list \<Rightarrow> bool" where
  "confidences_are_doubles rnd h =
     list_all (\<lambda>m. case confidence m of Some c \<Rightarrow> rnd c = c | None \<Rightarrow> True) h"

subsection \<open>Example stores\<close>

definition turn_hi :: turn where
  "turn_hi = \<lparr>sender = ''user'', msg_text = ''hi'', timestamp = None, confidence = None,
              tool = None\<rparr>"

definition turn_more :: turn where
  "turn_more = \<lparr>sender = ''user'', msg_text = ''still there?'', timestamp = None,
                confidence = None, tool = None\<rparr>"

definition plain_escalate :: escalate_msg where
  "plain_escalate = \<lparr>m_reason = None, m_metrics = None, m_avgConfidence = None,
     m_summary = None, m_fullHistory = None, m_customerPhone = None, m_customerName = None\<rparr>"

definition wire_plain :: escalate_wire where
  "wire_plain = \<lparr>w_reason = None, w_metrics = None, w_avgConfidence = None,
     w_summary = None, w_fullHistory = None, w_customerPhone = None, w_customerName = None\<rparr>"

text \<open>A chat session \<open>s1\<close> holding one user turn.\<close>

definition store_s1 :: store where
  "store_s1 = addChatMessage ''s1'' turn_hi ''t1''
                (snd (createSession ''s1'' ''chat'' 1 ''t0'' emptyStore))"

text \<open>The same after an \<open>ESCALATE\<close> without \<open>fullHistory\<close>, and after the escalation has
  been resolved.\<close>

definition store_escalated :: store where
  "store_escalated =
     fst (snd (handleEscalation round_double plain_escalate 1 (Some ''s1'') ''esc_1'' ''t2'' store_s1))"

definition store_resolved :: store where
  "store_resolved =
     fst (handleEscalationResolve ''esc_1'' None 2 (\<lambda>_. 1) ''t3'' store_escalated)"

definition params_s1 :: escalation_params where
  "params_s1 = \<lparr>p_sessionId = ''s1'', p_type = ''chat'', p_reason = ''test'',
     p_history = Some 0, p_metrics = None, p_avgConfidence = None, p_summary = None,
     p_customerPhone = None, p_customerName = None\<rparr>"

text \<open>The escalated store with a second chat session \<open>s2\<close> holding one turn.\<close>

definition store_two_sessions :: store where
  "store_two_sessions =
     addChatMessage ''s2'' turn_more ''t6''
       (snd (createSession ''s2'' ''chat'' 3 ''t5'' store_escalated))"

text \<open>A user turn whose recognition confidence is the score 0.\<close>

definition turn_zero :: turn where
  "turn_zero = \<lparr>sender = ''user'', msg_text = ''hello'', timestamp = None,
                confidence = Some 0, tool = None\<rparr>"

text \<open>A voice session \<open>s1\<close> and three chunks arriving with indices 0, 2, 1.\<close>

definition store_s1_voice :: store where
  "store_s1_voice = snd (createSession ''s1'' ''voice'' 1 ''t0'' emptyStore)"

definition three_chunks :: "chunk list" where
  "three_chunks =
       [\<lparr>chunk_data = ''a'', chunk_index = 0, chunk_timestamp = 10\<rparr>,
        \<lparr>chunk_data = ''c'', chunk_index = 2, chunk_timestamp = 11\<rparr>,
        \<lparr>chunk_data = ''b'', chunk_index = 1, chunk_timestamp = 12\<rparr>]"

definition store_three_chunks :: store where
  "store_three_chunks = addAudioChunks ''s1'' three_chunks store_s1_voice"

text \<open>Four user turns with confidences 0.9, 0.5, 0.3 and null, as an array at reference 0.\<close>

definition four_user_turns :: "turn list" where
  "four_user_turns =
    [\<lparr>sender = ''user'', msg_text = ''a'', timestamp = None, confidence = Some double_0_9,
      tool = None\<rparr>,
     \<lparr>sender = ''user'', msg_text = ''b'', timestamp = None, confidence = Some (1 / 2),
      tool = None\<rparr>,
     \<lparr>sender = ''user'', msg_text = ''c'', timestamp = None, confidence = Some double_0_3,
      tool = None\<rparr>,
     \<lparr>sender = ''user'', msg_text = ''d'', timestamp = None, confidence = None,
      tool = None\<rparr>]"

definition store_four_turns :: store where
  "store_four_turns =
     emptyStore\<lparr>arrays := (arrays emptyStore)(0 := four_user_turns), nextRef := 1\<rparr>"

definition params_four_turns :: escalation_params where
  "params_four_turns = \<lparr>p_sessionId = ''s1'', p_type = ''voice'', p_reason = ''test'',
     p_history = Some 0, p_metrics = None, p_avgConfidence = None, p_summary = None,
     p_customerPhone = None, p_customerName = None\<rparr>"

section \<open>Association lists\<close>

lemma list_all_update:
  "list_all P al \<Longrightarrow> P (k, v) \<Longrightarrow> list_all P (AList.update k v al)"
  by (induction al) auto

lemma list_all_delete:
  "list_all P al \<Longrightarrow> list_all P (AList.delete k al)"
  by (induction al) (auto simp: AList.delete_eq)

lemma list_all_mono_less:
  "list_all (\<lambda>p. f p < n) al \<Longrightarrow> list_all (\<lambda>p. f p < Suc n) al"
  by (induction al) auto

lemma keys_delete: "map fst (AList.delete k al) = removeAll k (map fst al)"
  by (induction al) (auto simp: AList.delete_eq)

lemma map_of_list_all:
  "map_of al k = Some v \<Longrightarrow> list_all P al \<Longrightarrow> P (k, v)"
  by (induction al) (auto split: if_splits)

lemma find_Some_mem: "find P xs = Some x \<Longrightarrow> x \<in> set xs \<and> P x"
  by (induction xs) (auto split: if_splits)

section \<open>Session store: basic facts\<close>

lemma getSession_addChatMessage [simp]:
  "getSession i (addChatMessage sid m now s) = getSession i s"
  by (simp add: getSession_def addChatMessage_def split: option.splits)

lemma historyContents_present:
  "getSession sid s = Some session \<Longrightarrow> historyContents sid s = arrays s (chatHistory session)"
  by (simp add: historyContents_def getSessionHistory_def getSession_def)

lemma arrays_addChatMessage:
  "getSession sid s = Some session \<Longrightarrow>
   arrays (addChatMessage sid m now s) =
     (arrays s)(chatHistory session := arrays s (chatHistory session) @ [pushedMessage now m])"
  by (simp add: addChatMessage_def getSession_def)

lemma addChatMessages_Cons:
  "addChatMessages sid ((now, m) # tms) s = addChatMessages sid tms (addChatMessage sid m now s)"
  by (simp add: addChatMessages_def)

lemma historyContents_addChatMessages:
  "getSession sid s = Some session \<Longrightarrow>
   historyContents sid (addChatMessages sid tms s) =
     historyContents sid s @ map (\<lambda>(now, m). pushedMessage now m) tms"
proof (induction tms arbitrary: s)
  case Nil
  then show ?case by (simp add: addChatMessages_def)
next
  case (Cons tm tms)
  obtain now m where tm: "tm = (now, m)" by (cases tm)
  have g: "getSession sid (addChatMessage sid m now s) = Some session"
    using Cons.prems by simp
  have "historyContents sid (addChatMessage sid m now s) =
          historyContents sid s @ [pushedMessage now m]"
    using Cons.prems g
    by (simp add: historyContents_present arrays_addChatMessage)
  then show ?case
    using Cons.IH [OF g] by (simp add: tm addChatMessages_Cons)
qed

lemma getSession_createSession:
  "getSession i (snd (createSession i k w now s)) =
     Some \<lparr>session_id = i, session_type = k, startTime = now, audioChunks = [],
           chatHistory = nextRef s\<rparr>"
  by (simp add: getSession_def createSession_def Let_def update_conv')

lemma historyContents_createSession:
  "historyContents i (snd (createSession i k w now s)) = []"
proof -
  have "historyContents i (snd (createSession i k w now s)) =
          arrays (snd (createSession i k w now s)) (nextRef s)"
    using historyContents_present [OF getSession_createSession, of i k w now s] by simp
  then show ?thesis by (simp add: createSession_def Let_def)
qed


lemma deleteSession_absent:
  "store_inv s \<Longrightarrow> \<not> hasSession i s \<Longrightarrow> deleteSession i s = s"
proof -
  assume inv: "store_inv s" and absent: "\<not> hasSession i s"
  from absent have a: "i \<notin> fst ` set (activeSessions s)"
    by (simp add: hasSession_def map_of_eq_None_iff)
  from inv have "set (map fst (sessionClients s)) = set (map fst (activeSessions s))"
    by (simp add: store_inv_def)
  with a have c: "i \<notin> fst ` set (sessionClients s)" by simp
  show ?thesis using a c by (simp add: deleteSession_def)
qed

lemma hasSession_deleteSession: "\<not> hasSession i (deleteSession i s)"
  by (simp add: hasSession_def deleteSession_def delete_conv')

lemma deleteSession_twice: "deleteSession i (deleteSession i s) = deleteSession i s"
  by (simp add: deleteSession_def delete_idem)

lemma getSession_addAudioChunk:
  "getSession sid s = Some session \<Longrightarrow>
   getSession sid (addAudioChunk sid c s) =
     Some (session\<lparr>audioChunks := audioChunks session @ [c]\<rparr>)"
  by (simp add: getSession_def addAudioChunk_def update_conv')

lemma getSession_addAudioChunks:
  "getSession sid s = Some session \<Longrightarrow>
   getSession sid (addAudioChunks sid cs s) =
     Some (session\<lparr>audioChunks := audioChunks session @ cs\<rparr>)"
proof (induction cs arbitrary: s session)
  case Nil
  then show ?case by (simp add: addAudioChunks_def)
next
  case (Cons c cs)
  have "addAudioChunks sid (c # cs) s = addAudioChunks sid cs (addAudioChunk sid c s)"
    by (simp add: addAudioChunks_def)
  then show ?case
    using Cons.IH [OF getSession_addAudioChunk [OF Cons.prems, of c]] by simp
qed

lemma getAndClearAudioChunks_present:
  "getSession sid s = Some session \<Longrightarrow>
   fst (getAndClearAudioChunks sid s) = audioChunks session \<and>
   getSession sid (snd (getAndClearAudioChunks sid s)) = Some (session\<lparr>audioChunks := []\<rparr>)"
  by (simp add: getSession_def getAndClearAudioChunks_def update_conv')

lemma frame_addChatMessage:
  "activeSessions (addChatMessage sid m now s) = activeSessions s \<and>
   sessionClients (addChatMessage sid m now s) = sessionClients s \<and>
   escalatedCalls (addChatMessage sid m now s) = escalatedCalls s \<and>
   nextRef (addChatMessage sid m now s) = nextRef s"
  by (simp add: addChatMessage_def split: option.splits)

lemma frame_addChatMessages:
  "activeSessions (addChatMessages sid tms s) = activeSessions s \<and>
   sessionClients (addChatMessages sid tms s) = sessionClients s \<and>
   escalatedCalls (addChatMessages sid tms s) = escalatedCalls s \<and>
   nextRef (addChatMessages sid tms s) = nextRef s"
proof (induction tms arbitrary: s)
  case Nil
  show ?case by (simp add: addChatMessages_def)
next
  case (Cons tm tms)
  obtain now m where tm: "tm = (now, m)" by (cases tm)
  show ?case
    using Cons.IH [of "addChatMessage sid m now s"]
    by (simp add: tm addChatMessages_Cons frame_addChatMessage)
qed

lemma arrays_addChatMessage_other:
  "(\<And>session. getSession sid s = Some session \<Longrightarrow> chatHistory session \<noteq> r) \<Longrightarrow>
   arrays (addChatMessage sid m now s) r = arrays s r"
  by (auto simp: addChatMessage_def getSession_def split: option.splits)

lemma arrays_addChatMessages_other:
  "(\<And>session. getSession sid s = Some session \<Longrightarrow> chatHistory session \<noteq> r) \<Longrightarrow>
   arrays (addChatMessages sid tms s) r = arrays s r"
proof (induction tms arbitrary: s)
  case Nil
  show ?case by (simp add: addChatMessages_def)
next
  case (Cons tm tms)
  obtain now m where tm: "tm = (now, m)" by (cases tm)
  have "arrays (addChatMessages sid tms (addChatMessage sid m now s)) r =
        arrays (addChatMessage sid m now s) r"
    using Cons.prems by (intro Cons.IH) simp
  then show ?case
    using Cons.prems by (simp add: tm addChatMessages_Cons arrays_addChatMessage_other)
qed

lemma confidence_pushedMessage:
  "confidence (pushedMessage now m) =
     (if confidence m = None \<or> confidence m = Some 0 then None else confidence m)"
  by (auto simp: pushedMessage_def or_null_number_def split: option.splits)

section \<open>Escalation store and handler: basic facts\<close>

lemma getEscalationBySessionId_None_iff:
  "getEscalationBySessionId i s = None \<longleftrightarrow>
     \<not> list_ex (\<lambda>e. sessionId e = i) (map snd (escalatedCalls s))"
  by (simp add: getEscalationBySessionId_def find_None_iff list_ex_iff)

lemma createEscalation_Some:
  "p_history params = Some r \<Longrightarrow>
   escalation_id (fst (createEscalation rnd eid now params s)) = eid \<and>
   sessionId (fst (createEscalation rnd eid now params s)) = p_sessionId params \<and>
   status (fst (createEscalation rnd eid now params s)) = ''pending'' \<and>
   history (fst (createEscalation rnd eid now params s)) = r \<and>
   resolvedAt (fst (createEscalation rnd eid now params s)) = None \<and>
   resolvedBy (fst (createEscalation rnd eid now params s)) = None \<and>
   arrays (snd (createEscalation rnd eid now params s)) = arrays s \<and>
   nextRef (snd (createEscalation rnd eid now params s)) = nextRef s \<and>
   activeSessions (snd (createEscalation rnd eid now params s)) = activeSessions s \<and>
   sessionClients (snd (createEscalation rnd eid now params s)) = sessionClients s \<and>
   escalatedCalls (snd (createEscalation rnd eid now params s)) =
     AList.update eid (fst (createEscalation rnd eid now params s)) (escalatedCalls s)"
  by (simp add: createEscalation_def Let_def)

lemma createEscalation_stat_fields:
  "p_history params = Some r \<Longrightarrow>
     stats_avgConfidence (stats (fst (createEscalation rnd eid now params s))) =
       calculatedAvgConfidence rnd (arrays s r) \<and>
     lowConfidenceCount (stats (fst (createEscalation rnd eid now params s))) =
       length (filter (\<lambda>c. c < double_0_7) (confidenceScores (arrays s r))) \<and>
     userMessages (stats (fst (createEscalation rnd eid now params s))) =
       length (userMessagesOf (arrays s r)) \<and>
     totalTurns (stats (fst (createEscalation rnd eid now params s))) = length (arrays s r) \<and>
     avgConfidence (fst (createEscalation rnd eid now params s)) =
       (case p_avgConfidence params of Some a \<Rightarrow> Some a
        | None \<Rightarrow> calculatedAvgConfidence rnd (arrays s r))"
  by (simp add: createEscalation_def Let_def)

lemma getEscalation_created:
  "getEscalation eid (snd (createEscalation rnd eid now params s)) =
     Some (fst (createEscalation rnd eid now params s))"
  by (simp add: getEscalation_def createEscalation_def Let_def update_conv' split_beta)

lemma updateEscalationStatus_present:
  assumes "getEscalation i s = Some e"
  shows "updateEscalationStatus i st rb now s =
    (Some (if st = ''resolved''
           then e\<lparr>status := st, resolvedAt := Some now, resolvedBy := rb\<rparr>
           else e\<lparr>status := st\<rparr>),
     s\<lparr>escalatedCalls := AList.update i
          (if st = ''resolved''
           then e\<lparr>status := st, resolvedAt := Some now, resolvedBy := rb\<rparr>
           else e\<lparr>status := st\<rparr>) (escalatedCalls s)\<rparr>)"
  using assms by (simp add: updateEscalationStatus_def getEscalation_def Let_def)

lemma handleEscalation_existing:
  assumes "i \<noteq> []" "hasSession i s" "getEscalationBySessionId i s = Some e"
  shows "handleEscalation rnd m w (Some i) eid now s =
           (None, s, [SendToClient w (ESCALATION_EXISTS (escalation_id e))])"
  using assms by (simp add: handleEscalation_def)

lemma handleEscalation_new:
  assumes "i \<noteq> []" "getSession i s = Some session" "getEscalationBySessionId i s = None"
  shows "handleEscalation rnd m w (Some i) eid now s =
    (Some (fst (createEscalation rnd eid now (escalationParams m i session (historyArg m session))
                  (mirrored m i now s))),
     snd (createEscalation rnd eid now (escalationParams m i session (historyArg m session))
                  (mirrored m i now s)),
     [SendToClient w (ESCALATION_TRIGGERED
         (escalation_id (fst (createEscalation rnd eid now
             (escalationParams m i session (historyArg m session)) (mirrored m i now s))))
         ''Connecting you to an agent...''),
      Broadcast (ESCALATION_NEW
        (fst (createEscalation rnd eid now (escalationParams m i session (historyArg m session))
                  (mirrored m i now s)))
        (arrays (snd (createEscalation rnd eid now
             (escalationParams m i session (historyArg m session)) (mirrored m i now s)))
           (history (fst (createEscalation rnd eid now
             (escalationParams m i session (historyArg m session)) (mirrored m i now s))))))])"
  using assms
  by (cases "m_fullHistory m")
     (simp_all add: handleEscalation_def hasSession_def getSession_def getSessionHistory_def
       escalationParams_def mirrored_def historyArg_def split_beta Let_def)

lemma frame_mirrored:
  "activeSessions (mirrored m i now s) = activeSessions s \<and>
   sessionClients (mirrored m i now s) = sessionClients s \<and>
   escalatedCalls (mirrored m i now s) = escalatedCalls s \<and>
   nextRef (mirrored m i now s) = nextRef s"
  by (simp add: mirrored_def frame_addChatMessages split: option.splits)

lemma escalationHistory_addChatMessage_same:
  assumes "getEscalation eid s = Some e" "getSession i s = Some session"
    "history e = chatHistory session"
  shows "escalationHistory eid (addChatMessage i m now s) =
           Some (arrays s (history e) @ [pushedMessage now m])"
  using assms
  by (simp add: escalationHistory_def getEscalation_def frame_addChatMessage
        arrays_addChatMessage)

lemma escalationHistory_addChatMessage_other:
  assumes "getEscalation eid s = Some e"
    "\<And>session. getSession j s = Some session \<Longrightarrow> chatHistory session \<noteq> history e"
  shows "escalationHistory eid (addChatMessage j m now s) = Some (arrays s (history e))"
  using assms
  by (simp add: escalationHistory_def getEscalation_def frame_addChatMessage
        arrays_addChatMessage_other)

lemma confidenceScores_spec:
  "confidenceScores h = map (\<lambda>m. the (confidence m)) (spec_qualifying h)"
  by (induction h) (simp_all add: confidenceScores_def userMessagesOf_def spec_qualifying_def)

lemma lowConfidenceCount_spec:
  "length (filter (\<lambda>c. c < double_0_7) (confidenceScores h)) = spec_lowConfidenceCount h"
  by (simp add: confidenceScores_spec spec_lowConfidenceCount_def filter_map comp_def)

lemma confidenceScores_append:
  "confidenceScores (h @ k) = confidenceScores h @ confidenceScores k"
  by (simp add: confidenceScores_def userMessagesOf_def)

section \<open>The store invariant is kept by every operation\<close>

lemma store_inv_emptyStore: "store_inv emptyStore"
  by (simp add: store_inv_def emptyStore_def)

lemma store_inv_createSession:
  "store_inv s \<Longrightarrow> store_inv (snd (createSession i k w now s))"
  by (simp add: store_inv_def createSession_def Let_def update_keys
        list_all_update list_all_mono_less)

lemma store_inv_deleteSession: "store_inv s \<Longrightarrow> store_inv (deleteSession i s)"
  by (simp add: store_inv_def deleteSession_def keys_delete list_all_delete)

lemma store_inv_addAudioChunk: "store_inv s \<Longrightarrow> store_inv (addAudioChunk sid c s)"
proof (cases "map_of (activeSessions s) sid")
  case None
  assume "store_inv s"
  with None show ?thesis by (simp add: addAudioChunk_def)
next
  case (Some session)
  assume inv: "store_inv s"
  then have "chatHistory session < nextRef s"
    using map_of_list_all [OF Some, of "\<lambda>p. chatHistory (snd p) < nextRef s"]
    by (simp add: store_inv_def)
  moreover have "sid \<in> set (map fst (activeSessions s))"
    using Some by (metis map_of_eq_None_iff option.distinct(1) set_map)
  ultimately show ?thesis
    using inv Some by (simp add: store_inv_def addAudioChunk_def update_keys list_all_update)
qed

lemma store_inv_getAndClearAudioChunks:
  "store_inv s \<Longrightarrow> store_inv (snd (getAndClearAudioChunks sid s))"
proof (cases "map_of (activeSessions s) sid")
  case None
  assume "store_inv s"
  with None show ?thesis by (simp add: getAndClearAudioChunks_def)
next
  case (Some session)
  assume inv: "store_inv s"
  then have "chatHistory session < nextRef s"
    using map_of_list_all [OF Some, of "\<lambda>p. chatHistory (snd p) < nextRef s"]
    by (simp add: store_inv_def)
  moreover have "sid \<in> set (map fst (activeSessions s))"
    using Some by (metis map_of_eq_None_iff option.distinct(1) set_map)
  ultimately show ?thesis
    using inv Some
    by (simp add: store_inv_def getAndClearAudioChunks_def update_keys list_all_update)
qed

lemma store_inv_addChatMessage: "store_inv s \<Longrightarrow> store_inv (addChatMessage sid m now s)"
  by (simp add: store_inv_def addChatMessage_def split: option.splits)

lemma store_inv_addChatMessages: "store_inv s \<Longrightarrow> store_inv (addChatMessages sid tms s)"
proof (induction tms arbitrary: s)
  case Nil
  then show ?case by (simp add: addChatMessages_def)
next
  case (Cons tm tms)
  obtain now m where tm: "tm = (now, m)" by (cases tm)
  show ?case
    using Cons.IH [OF store_inv_addChatMessage [OF Cons.prems, of sid m now]]
    by (simp add: tm addChatMessages_Cons)
qed

lemma store_inv_session_ref:
  "store_inv s \<Longrightarrow> getSession j s = Some session \<Longrightarrow> chatHistory session < nextRef s"
  using map_of_list_all [of "activeSessions s" j session "\<lambda>p. chatHistory (snd p) < nextRef s"]
  by (simp add: store_inv_def getSession_def)

lemma store_inv_createEscalation:
  "store_inv s \<Longrightarrow> (\<And>r. p_history params = Some r \<Longrightarrow> r < nextRef s) \<Longrightarrow>
   store_inv (snd (createEscalation rnd eid now params s))"
  by (cases "p_history params")
     (simp_all add: store_inv_def createEscalation_def Let_def list_all_update
        list_all_mono_less)

lemma store_inv_updateEscalationStatus:
  assumes "store_inv s"
  shows "store_inv (snd (updateEscalationStatus i st rb now s))"
proof (cases "map_of (escalatedCalls s) i")
  case None
  with assms show ?thesis by (simp add: updateEscalationStatus_def)
next
  case (Some e)
  have "history e < nextRef s"
    using map_of_list_all [OF Some, of "\<lambda>p. history (snd p) < nextRef s"] assms
    by (simp add: store_inv_def)
  then show ?thesis
    using assms Some
    by (simp add: store_inv_def updateEscalationStatus_def Let_def list_all_update)
qed

lemma store_inv_mirrored: "store_inv s \<Longrightarrow> store_inv (mirrored m i now s)"
  by (simp add: mirrored_def store_inv_addChatMessages split: option.splits)

lemma store_inv_handleEscalation:
  assumes "store_inv s" and "\<And>r. m_fullHistory m = Some r \<Longrightarrow> r < nextRef s"
  shows "store_inv (fst (snd (handleEscalation rnd m w sid eid now s)))"
proof (cases "\<exists>i session. sid = Some i \<and> i \<noteq> [] \<and> getSession i s = Some session
                 \<and> getEscalationBySessionId i s = None")
  case False
  then show ?thesis
    using assms(1)
    by (auto simp: handleEscalation_def hasSession_def getSession_def
          split: option.splits)
next
  case True
  then obtain i session where sid: "sid = Some i" and n: "i \<noteq> []"
    and sess: "getSession i s = Some session"
    and none: "getEscalationBySessionId i s = None" by blast
  have "historyArg m session < nextRef (mirrored m i now s)"
    using assms(2) store_inv_session_ref [OF assms(1) sess]
    by (simp add: historyArg_def frame_mirrored split: option.splits)
  then have "store_inv (snd (createEscalation rnd eid now
       (escalationParams m i session (historyArg m session)) (mirrored m i now s)))"
    by (intro store_inv_createEscalation store_inv_mirrored assms(1))
       (simp add: escalationParams_def)
  then show ?thesis
    by (simp add: sid handleEscalation_new [OF n sess none])
qed

lemma store_inv_onEscalate:
  assumes "store_inv s"
  shows "store_inv (fst (snd (onEscalate rnd wire w sid eid now s)))"
proof (cases "w_fullHistory wire")
  case None
  then show ?thesis
    using store_inv_handleEscalation [OF assms, of "toMessage wire None" rnd w sid eid now]
    by (simp add: onEscalate_def parseEscalate_def toMessage_def)
next
  case (Some ts)
  let ?s0 = "s\<lparr>arrays := (arrays s)(nextRef s := ts), nextRef := Suc (nextRef s)\<rparr>"
  have "store_inv ?s0"
    using assms by (simp add: store_inv_def list_all_mono_less)
  then show ?thesis
    using store_inv_handleEscalation [of ?s0 "toMessage wire (Some (nextRef s))" rnd w sid eid now]
    by (simp add: onEscalate_def parseEscalate_def Some toMessage_def)
qed

section \<open>Further facts for the claims\<close>

lemma historyContents_absent:
  "getSession j s = None \<Longrightarrow> historyContents j s = []"
  by (simp add: historyContents_def getSessionHistory_def getSession_def)

lemma escalationHistory_frame:
  assumes "store_inv s" and "escalatedCalls s' = escalatedCalls s"
    and "\<And>r. r < nextRef s \<Longrightarrow> arrays s' r = arrays s r"
  shows "escalationHistory e s' = escalationHistory e s"
proof (cases "getEscalation e s")
  case None
  then show ?thesis using assms(2) by (simp add: escalationHistory_def getEscalation_def)
next
  case (Some x)
  have "history x < nextRef s"
    using map_of_list_all [of "escalatedCalls s" e x "\<lambda>p. history (snd p) < nextRef s"]
      Some assms(1)
    by (simp add: store_inv_def getEscalation_def)
  then show ?thesis
    using Some assms(2,3) by (simp add: escalationHistory_def getEscalation_def)
qed

lemma confidences_are_doubles_scores:
  assumes "confidences_are_doubles rnd h" and "c \<in> set (confidenceScores h)"
  shows "rnd c = c"
proof -
  obtain m where m: "m \<in> set h" and cm: "confidence m = Some c"
    using assms(2) by (auto simp: confidenceScores_def userMessagesOf_def)
  have "case confidence m of Some c \<Rightarrow> rnd c = c | None \<Rightarrow> True"
    using assms(1) m by (simp add: confidences_are_doubles_def list_all_iff)
  then show ?thesis by (simp add: cm)
qed

lemma calculatedAvgConfidence_spec:
  assumes "confidences_are_doubles rnd h"
  shows "calculatedAvgConfidence rnd h = spec_avgConfidence rnd h"
proof (cases "confidenceScores h")
  case Nil
  then have "spec_qualifying h = []" by (simp add: confidenceScores_spec)
  with Nil show ?thesis
    by (simp add: calculatedAvgConfidence_def spec_avgConfidence_def)
next
  case (Cons c cs)
  have "rnd c = c"
    using confidences_are_doubles_scores [OF assms, of c] Cons by simp
  then have "foldl (\<lambda>a b. rnd (a + b)) 0 (confidenceScores h) =
               spec_sum rnd (confidenceScores h)"
    by (simp add: Cons)
  moreover have "spec_qualifying h \<noteq> []"
    using Cons confidenceScores_spec [of h] by auto
  moreover have "length (confidenceScores h) = length (spec_qualifying h)"
    by (simp add: confidenceScores_spec)
  ultimately show ?thesis
    using Cons
    by (simp add: calculatedAvgConfidence_def spec_avgConfidence_def
          confidenceScores_spec [symmetric])
qed

lemma four_turns_example:
  "avgConfidence (fst (createEscalation round_double ''esc_1'' ''t0'' params_four_turns
                         store_four_turns))
     = Some (round_double (round_double (round_double (double_0_9 + 1 / 2) + double_0_3) / 3))
   \<and> round_double (round_double (round_double (double_0_9 + 1 / 2) + double_0_3) / 3)
     = 2552039788843281 / 4503599627370496
   \<and> lowConfidenceCount (stats (fst (createEscalation round_double ''esc_1'' ''t0''
        params_four_turns store_four_turns))) = 2"
  by code_simp

text \<open>The sum is rounded: the mean of the doubles 0.1 and 0.2 is the double
  0.15000000000000002, not \<open>3 / 20\<close>.\<close>

lemma calculatedAvgConfidence_rounds:
  "calculatedAvgConfidence round_double
     [\<lparr>sender = ''user'', msg_text = ''a'', timestamp = None, confidence = Some double_0_1,
       tool = None\<rparr>,
      \<lparr>sender = ''user'', msg_text = ''b'', timestamp = None, confidence = Some double_0_2,
       tool = None\<rparr>] = Some (1351079888211149 / 9007199254740992)"
  by code_simp

lemma map_Pair_pushed:
  "map (\<lambda>(now, m). pushedMessage now m) (map (Pair now) ts) = map (pushedMessage now) ts"
  by (induction ts) simp_all

section \<open>The claims\<close>

text \<open>
  Claim C1. As stated: an \<open>ESCALATE\<close> is rejected with \<open>ESCALATION_EXISTS\<close> exactly when the
  registry holds a non-resolved escalation for the session, and otherwise (session active) a
  new pending escalation is created and \<open>ESCALATION_NEW\<close> broadcast.

  The handler does not look at the status: \<open>getEscalationBySessionId\<close> returns the first
  escalation stored for the session, resolved or not. What holds is: for an active session,
  \<open>ESCALATE\<close> is answered with \<open>ESCALATION_EXISTS\<close> exactly when the registry holds an
  escalation of any status for that session; the answer carries the id of the first such
  record and the store is unchanged. When the registry holds none, a record with status
  \<open>pending\<close> is stored under the new id, \<open>ESCALATION_TRIGGERED\<close> goes to the sender and
  \<open>ESCALATION_NEW\<close> is broadcast.
\<close>

theorem escalate_rejected_iff_any_escalation:
  assumes "i \<noteq> []" and "hasSession i s"
  shows "((\<exists>x. snd (snd (handleEscalation rnd m w (Some i) eid now s)) =
                 [SendToClient w (ESCALATION_EXISTS x)])
            \<longleftrightarrow> list_ex (\<lambda>e. sessionId e = i) (map snd (escalatedCalls s)))
     \<and> (\<forall>e. getEscalationBySessionId i s = Some e \<longrightarrow>
            handleEscalation rnd m w (Some i) eid now s =
              (None, s, [SendToClient w (ESCALATION_EXISTS (escalation_id e))]))
     \<and> (getEscalationBySessionId i s = None \<longrightarrow>
          (\<exists>e s'. handleEscalation rnd m w (Some i) eid now s =
               (Some e, s',
                [SendToClient w (ESCALATION_TRIGGERED eid ''Connecting you to an agent...''),
                 Broadcast (ESCALATION_NEW e (arrays s' (history e)))])
             \<and> escalation_id e = eid \<and> sessionId e = i \<and> status e = ''pending''
             \<and> escalatedCalls s' = AList.update eid e (escalatedCalls s)))"
proof -
  obtain session where sess: "getSession i s = Some session"
    using assms(2) by (auto simp: hasSession_def getSession_def)
  let ?p = "escalationParams m i session (historyArg m session)"
  let ?c = "createEscalation rnd eid now ?p (mirrored m i now s)"
  have ph: "p_history ?p = Some (historyArg m session)"
    by (simp add: escalationParams_def)
  have ps: "p_sessionId ?p = i"
    by (simp add: escalationParams_def)
  note ce = createEscalation_Some [OF ph, of rnd eid now "mirrored m i now s"]
  have existing: "handleEscalation rnd m w (Some i) eid now s =
              (None, s, [SendToClient w (ESCALATION_EXISTS (escalation_id e))])"
    if "getEscalationBySessionId i s = Some e" for e
    using handleEscalation_existing [OF assms that] .
  have new: "handleEscalation rnd m w (Some i) eid now s =
               (Some (fst ?c), snd ?c,
                [SendToClient w (ESCALATION_TRIGGERED eid ''Connecting you to an agent...''),
                 Broadcast (ESCALATION_NEW (fst ?c) (arrays (snd ?c) (history (fst ?c))))])"
    if "getEscalationBySessionId i s = None"
    using handleEscalation_new [OF assms(1) sess that, of rnd m w eid now] ce by simp
  have iff: "(\<exists>x. snd (snd (handleEscalation rnd m w (Some i) eid now s)) =
                 [SendToClient w (ESCALATION_EXISTS x)])
            \<longleftrightarrow> list_ex (\<lambda>e. sessionId e = i) (map snd (escalatedCalls s))"
  proof (cases "getEscalationBySessionId i s")
    case None
    then show ?thesis
      using new [OF None] by (simp add: getEscalationBySessionId_None_iff)
  next
    case (Some e)
    then have "getEscalationBySessionId i s \<noteq> None" by simp
    then have "list_ex (\<lambda>e. sessionId e = i) (map snd (escalatedCalls s))"
      by (simp add: getEscalationBySessionId_None_iff)
    then show ?thesis using existing [OF Some] by simp
  qed
  have created: "\<exists>e s'. handleEscalation rnd m w (Some i) eid now s =
               (Some e, s',
                [SendToClient w (ESCALATION_TRIGGERED eid ''Connecting you to an agent...''),
                 Broadcast (ESCALATION_NEW e (arrays s' (history e)))])
             \<and> escalation_id e = eid \<and> sessionId e = i \<and> status e = ''pending''
             \<and> escalatedCalls s' = AList.update eid e (escalatedCalls s)"
    if "getEscalationBySessionId i s = None"
    using new [OF that] ce ps by (simp add: frame_mirrored)
  show ?thesis using iff existing created by blast
qed

text \<open>At \<open>store_resolved\<close> the only escalation of session \<open>s1\<close> is resolved, and a fresh
  escalation is created at \<open>store_s1\<close>, which has none.\<close>

theorem escalate_rejected_iff_any_escalation_witness:
  "''s1'' \<noteq> [] \<and> hasSession ''s1'' store_resolved
   \<and> map_option status (getEscalationBySessionId ''s1'' store_resolved) = Some ''resolved''
   \<and> handleEscalation round_double plain_escalate 1 (Some ''s1'') ''esc_2'' ''t4'' store_resolved =
       (None, store_resolved, [SendToClient 1 (ESCALATION_EXISTS ''esc_1'')])
   \<and> hasSession ''s1'' store_s1 \<and> getEscalationBySessionId ''s1'' store_s1 = None
   \<and> map_option status
       (fst (handleEscalation round_double plain_escalate 1 (Some ''s1'') ''esc_1'' ''t2'' store_s1)) =
       Some ''pending''
   \<and> take 1 (snd (snd (handleEscalation round_double plain_escalate 1 (Some ''s1'') ''esc_1'' ''t2'' store_s1))) =
       [SendToClient 1 (ESCALATION_TRIGGERED ''esc_1'' ''Connecting you to an agent...'')]"
proof -
  have n: "''s1'' \<noteq> []" by simp
  have h1: "hasSession ''s1'' store_resolved" by code_simp
  have st: "map_option status (getEscalationBySessionId ''s1'' store_resolved) = Some ''resolved''"
    by code_simp
  have ei: "map_option escalation_id (getEscalationBySessionId ''s1'' store_resolved) = Some ''esc_1''"
    by code_simp
  then obtain e where e: "getEscalationBySessionId ''s1'' store_resolved = Some e"
      and eid: "escalation_id e = ''esc_1''"
    by (cases "getEscalationBySessionId ''s1'' store_resolved") auto
  have h2: "hasSession ''s1'' store_s1" by code_simp
  have none: "getEscalationBySessionId ''s1'' store_s1 = None" by code_simp
  note rejected = escalate_rejected_iff_any_escalation
                    [OF n h1, of round_double plain_escalate 1 "''esc_2''" "''t4''"]
  note created = escalate_rejected_iff_any_escalation
                    [OF n h2, of round_double plain_escalate 1 "''esc_1''" "''t2''"]
  have r: "handleEscalation round_double plain_escalate 1 (Some ''s1'') ''esc_2'' ''t4'' store_resolved =
       (None, store_resolved, [SendToClient 1 (ESCALATION_EXISTS ''esc_1'')])"
    using rejected e eid by simp
  obtain e' s' where
    c: "handleEscalation round_double plain_escalate 1 (Some ''s1'') ''esc_1'' ''t2'' store_s1 =
         (Some e', s',
          [SendToClient 1 (ESCALATION_TRIGGERED ''esc_1'' ''Connecting you to an agent...''),
           Broadcast (ESCALATION_NEW e' (arrays s' (history e')))])"
    and p: "status e' = ''pending''"
    using created none by blast
  show ?thesis using n h1 st r h2 none c p by simp
qed

text \<open>The claim as stated fails in both directions. Session \<open>s1\<close> is active and has no
  non-resolved escalation, yet \<open>ESCALATE\<close> is rejected with \<open>ESCALATION_EXISTS\<close> and
  nothing is created. And once session \<open>s1\<close> has ended while its escalation is still
  pending, \<open>ESCALATE\<close> for it is answered with \<open>ERROR\<close>, not \<open>ESCALATION_EXISTS\<close>.\<close>

theorem escalate_resolved_counterexample:
  "hasSession ''s1'' store_resolved
   \<and> getPendingEscalations store_resolved = []
   \<and> fst (handleEscalation round_double plain_escalate 1 (Some ''s1'') ''esc_2'' ''t4'' store_resolved) = None
   \<and> snd (snd (handleEscalation round_double plain_escalate 1 (Some ''s1'') ''esc_2'' ''t4'' store_resolved)) =
       [SendToClient 1 (ESCALATION_EXISTS ''esc_1'')]
   \<and> map fst (escalatedCalls
         (fst (snd (handleEscalation round_double plain_escalate 1 (Some ''s1'') ''esc_2'' ''t4''
                      store_resolved)))) = [''esc_1'']
   \<and> map status (getPendingEscalations (deleteSession ''s1'' store_escalated)) = [''pending'']
   \<and> snd (snd (handleEscalation round_double plain_escalate 1 (Some ''s1'') ''esc_2'' ''t4''
                  (deleteSession ''s1'' store_escalated))) =
       [SendToClient 1 (ERROR ''No active session'')]"
  by code_simp

text \<open>
  Claim C2. As stated: \<open>create\<close> for a session id already in the registry fails with
  \<open>DuplicateSession\<close> and leaves the existing session unchanged.

  \<open>createSession\<close> has no failure and no check: for an id already present it replaces the
  entry, in its place in the iteration order, with a new session (empty audio buffer, a new
  empty history array, the new type and start time) and binds the id to the new connection.
  Everything else in a well-formed store stays as it was: every other session with its
  audio buffer, its turn history and its connection, every array allocated before, and
  every escalation with its history. \<open>handleSessionStart\<close> then broadcasts
  \<open>SESSION_STARTED\<close> as for a first start.
\<close>

theorem createSession_existing_replaces:
  assumes "store_inv s" and "hasSession i s" and "i \<noteq> []"
  shows "getSession i (snd (createSession i k w now s)) =
           Some \<lparr>session_id = i, session_type = k, startTime = now, audioChunks = [],
                 chatHistory = nextRef s\<rparr>
       \<and> historyContents i (snd (createSession i k w now s)) = []
       \<and> getSessionClient i (snd (createSession i k w now s)) = Some w
       \<and> map fst (activeSessions (snd (createSession i k w now s))) = map fst (activeSessions s)
       \<and> map fst (sessionClients (snd (createSession i k w now s))) = map fst (sessionClients s)
       \<and> (\<forall>j. j \<noteq> i \<longrightarrow>
             getSession j (snd (createSession i k w now s)) = getSession j s
           \<and> historyContents j (snd (createSession i k w now s)) = historyContents j s
           \<and> getSessionClient j (snd (createSession i k w now s)) = getSessionClient j s)
       \<and> (\<forall>r. r < nextRef s \<longrightarrow> arrays (snd (createSession i k w now s)) r = arrays s r)
       \<and> escalatedCalls (snd (createSession i k w now s)) = escalatedCalls s
       \<and> (\<forall>e. escalationHistory e (snd (createSession i k w now s)) = escalationHistory e s)
       \<and> handleSessionStart \<lparr>start_id = Some i, sessionType = k\<rparr> w uuid now s =
           (i, snd (createSession i k w now s),
            [Broadcast (SESSION_STARTED (fst (createSession i k w now s)))])"
proof -
  let ?s' = "snd (createSession i k w now s)"
  have mem: "i \<in> set (map fst (activeSessions s))"
    using assms(2) by (simp add: hasSession_def map_of_eq_None_iff)
  have memc: "i \<in> set (map fst (sessionClients s))"
    using mem assms(1) by (simp add: store_inv_def)
  have keys: "map fst (activeSessions ?s') = map fst (activeSessions s)"
    using mem by (simp add: createSession_def Let_def update_keys)
  have keysc: "map fst (sessionClients ?s') = map fst (sessionClients s)"
    using memc by (simp add: createSession_def Let_def update_keys)
  have arr: "arrays ?s' r = arrays s r" if "r < nextRef s" for r
    using that by (simp add: createSession_def Let_def)
  have esc: "escalatedCalls ?s' = escalatedCalls s"
    by (simp add: createSession_def Let_def)
  have others: "getSession j ?s' = getSession j s" if "j \<noteq> i" for j
    using that by (simp add: createSession_def Let_def getSession_def update_conv')
  have othersc: "getSessionClient j ?s' = getSessionClient j s" if "j \<noteq> i" for j
    using that by (simp add: createSession_def Let_def getSessionClient_def update_conv')
  have othersh: "historyContents j ?s' = historyContents j s" if "j \<noteq> i" for j
  proof (cases "getSession j s")
    case None
    then show ?thesis
      using others [OF that] by (simp add: historyContents_absent)
  next
    case (Some x)
    have "chatHistory x < nextRef s" by (rule store_inv_session_ref [OF assms(1) Some])
    then show ?thesis
      using Some others [OF that] arr
      by (simp add: historyContents_present [of j _ x])
  qed
  have client: "getSessionClient i ?s' = Some w"
    by (simp add: createSession_def Let_def getSessionClient_def update_conv')
  have eh: "escalationHistory e ?s' = escalationHistory e s" for e
    using escalationHistory_frame [OF assms(1) esc] arr by blast
  have start: "handleSessionStart \<lparr>start_id = Some i, sessionType = k\<rparr> w uuid now s =
           (i, ?s', [Broadcast (SESSION_STARTED (fst (createSession i k w now s)))])"
    using assms(3) by (simp add: handleSessionStart_def or_string_def split_beta Let_def)
  show ?thesis
    using getSession_createSession [of i k w now s] historyContents_createSession [of i k w now s]
      keys keysc others othersc othersh arr esc eh client start by blast
qed

theorem createSession_existing_replaces_witness:
  "store_inv store_two_sessions \<and> hasSession ''s1'' store_two_sessions \<and> ''s1'' \<noteq> []
   \<and> historyContents ''s1'' store_two_sessions = [pushedMessage ''t1'' turn_hi]
   \<and> historyContents ''s1'' (snd (createSession ''s1'' ''voice'' 2 ''t9'' store_two_sessions)) = []
   \<and> getSessionClient ''s1'' (snd (createSession ''s1'' ''voice'' 2 ''t9'' store_two_sessions)) =
       Some 2
   \<and> historyContents ''s2'' (snd (createSession ''s1'' ''voice'' 2 ''t9'' store_two_sessions)) =
       [pushedMessage ''t6'' turn_more]
   \<and> getSessionClient ''s2'' (snd (createSession ''s1'' ''voice'' 2 ''t9'' store_two_sessions)) =
       Some 3
   \<and> escalationHistory ''esc_1''
       (snd (createSession ''s1'' ''voice'' 2 ''t9'' store_two_sessions)) =
       Some [pushedMessage ''t1'' turn_hi]
   \<and> fst (handleSessionStart \<lparr>start_id = Some ''s1'', sessionType = ''voice''\<rparr> 2 ''u1'' ''t9''
            store_two_sessions) = ''s1''"
proof -
  have i: "store_inv store_two_sessions" by code_simp
  have h: "hasSession ''s1'' store_two_sessions" by code_simp
  have n: "''s1'' \<noteq> []" by simp
  have c: "historyContents ''s1'' store_two_sessions = [pushedMessage ''t1'' turn_hi]"
    by code_simp
  have c2: "historyContents ''s2'' store_two_sessions = [pushedMessage ''t6'' turn_more]"
    by code_simp
  have c3: "getSessionClient ''s2'' store_two_sessions = Some 3" by code_simp
  have c4: "escalationHistory ''esc_1'' store_two_sessions = Some [pushedMessage ''t1'' turn_hi]"
    by code_simp
  have d: "''s2'' \<noteq> ''s1''" by simp
  show ?thesis
    using i h n c c2 c3 c4 d
      createSession_existing_replaces [OF i h n, of "''voice''" 2 "''t9''" "''u1''"]
    by simp
qed

text \<open>The claim as stated fails: a second \<open>SESSION_START\<close> for \<open>s1\<close> succeeds and the turn
  the session held is gone.\<close>

theorem createSession_duplicate_counterexample:
  "hasSession ''s1'' store_s1
   \<and> historyContents ''s1'' store_s1 = [pushedMessage ''t1'' turn_hi]
   \<and> fst (handleSessionStart \<lparr>start_id = Some ''s1'', sessionType = ''voice''\<rparr> 2 ''u1'' ''t9''
            store_s1) = ''s1''
   \<and> historyContents ''s1''
       (fst (snd (handleSessionStart \<lparr>start_id = Some ''s1'', sessionType = ''voice''\<rparr> 2 ''u1''
                    ''t9'' store_s1))) = []
   \<and> getSession ''s1''
       (fst (snd (handleSessionStart \<lparr>start_id = Some ''s1'', sessionType = ''voice''\<rparr> 2 ''u1''
                    ''t9'' store_s1))) =
       Some \<lparr>session_id = ''s1'', session_type = ''voice'', startTime = ''t9'',
             audioChunks = [], chatHistory = 1\<rparr>"
  by code_simp

text \<open>
  Claim C3. As stated: the history stored in an escalation is a frozen copy; appending a
  further turn to the session leaves it unchanged.

  \<open>createEscalation\<close> stores the array it is given, without copying. When the \<open>ESCALATE\<close>
  message carries its own \<open>fullHistory\<close>, that array belongs to the message alone and no
  later \<open>addChatMessage\<close>, to any session of a well-formed store, changes what the
  escalation holds. When the message carries none, the escalation holds the session's own
  \<open>chatHistory\<close> array, and a turn appended to the session afterwards appears at the end of
  the escalation's history as well.
\<close>

theorem escalation_history_shared_unless_supplied:
  assumes "store_inv s" and "i \<noteq> []" and "hasSession i s"
    and "getEscalationBySessionId i s = None"
  shows "(w_fullHistory wire = None \<longrightarrow>
            escalationHistory eid (fst (snd (onEscalate rnd wire w (Some i) eid now s))) =
              Some (historyContents i s)
          \<and> escalationHistory eid
              (addChatMessage i m2 now2 (fst (snd (onEscalate rnd wire w (Some i) eid now s)))) =
              Some (historyContents i s @ [pushedMessage now2 m2]))
      \<and> (\<forall>ts. w_fullHistory wire = Some ts \<longrightarrow>
            escalationHistory eid (fst (snd (onEscalate rnd wire w (Some i) eid now s))) = Some ts
          \<and> (\<forall>j. escalationHistory eid
                (addChatMessage j m2 now2 (fst (snd (onEscalate rnd wire w (Some i) eid now s)))) =
                Some ts))"
proof -
  obtain session where sess: "getSession i s = Some session"
    using assms(3) by (auto simp: hasSession_def getSession_def)
  have shared: "escalationHistory eid (fst (snd (onEscalate rnd wire w (Some i) eid now s))) =
              Some (historyContents i s)
          \<and> escalationHistory eid
              (addChatMessage i m2 now2 (fst (snd (onEscalate rnd wire w (Some i) eid now s)))) =
              Some (historyContents i s @ [pushedMessage now2 m2])"
    if none: "w_fullHistory wire = None"
  proof -
    let ?m = "toMessage wire None"
    let ?p = "escalationParams ?m i session (chatHistory session)"
    let ?c = "createEscalation rnd eid now ?p s"
    have mh: "m_fullHistory ?m = None" by (simp add: toMessage_def)
    have st: "fst (snd (onEscalate rnd wire w (Some i) eid now s)) = snd ?c"
      using handleEscalation_new [OF assms(2) sess assms(4), of rnd ?m w eid now]
      by (simp add: onEscalate_def parseEscalate_def none mirrored_def historyArg_def mh)
    have ph: "p_history ?p = Some (chatHistory session)"
      by (simp add: escalationParams_def)
    note ce = createEscalation_Some [OF ph, of rnd eid now s]
    have g: "getEscalation eid (snd ?c) = Some (fst ?c)" by (rule getEscalation_created)
    have gs: "getSession i (snd ?c) = Some session"
      using sess ce by (simp add: getSession_def)
    have h: "history (fst ?c) = chatHistory session" using ce by simp
    have hc: "historyContents i s = arrays s (chatHistory session)"
      by (rule historyContents_present [OF sess])
    have "escalationHistory eid (snd ?c) = Some (historyContents i s)"
      using g h ce by (simp add: escalationHistory_def hc)
    moreover have "escalationHistory eid (addChatMessage i m2 now2 (snd ?c)) =
        Some (historyContents i s @ [pushedMessage now2 m2])"
      using escalationHistory_addChatMessage_same [OF g gs h, of m2 now2] h ce
      by (simp add: hc)
    ultimately show ?thesis by (simp add: st)
  qed
  have own: "escalationHistory eid (fst (snd (onEscalate rnd wire w (Some i) eid now s))) = Some ts
          \<and> (\<forall>j. escalationHistory eid
                (addChatMessage j m2 now2 (fst (snd (onEscalate rnd wire w (Some i) eid now s)))) =
                Some ts)"
    if some: "w_fullHistory wire = Some ts" for ts
  proof -
    let ?r = "nextRef s"
    let ?s0 = "s\<lparr>arrays := (arrays s)(?r := ts), nextRef := Suc ?r\<rparr>"
    let ?m = "toMessage wire (Some ?r)"
    let ?p = "escalationParams ?m i session ?r"
    let ?c = "createEscalation rnd eid now ?p (mirrored ?m i now ?s0)"
    have mh: "m_fullHistory ?m = Some ?r" by (simp add: toMessage_def)
    have sess0: "getSession i ?s0 = Some session" using sess by (simp add: getSession_def)
    have none0: "getEscalationBySessionId i ?s0 = None"
      using assms(4) by (simp add: getEscalationBySessionId_def)
    have st: "fst (snd (onEscalate rnd wire w (Some i) eid now s)) = snd ?c"
      using handleEscalation_new [OF assms(2) sess0 none0, of rnd ?m w eid now]
      by (simp add: onEscalate_def parseEscalate_def some historyArg_def mh)
    have ph: "p_history ?p = Some ?r" by (simp add: escalationParams_def)
    note ce = createEscalation_Some [OF ph, of rnd eid now "mirrored ?m i now ?s0"]
    note fm = frame_mirrored [of ?m i now ?s0]
    have fresh: "chatHistory x \<noteq> ?r" if "getSession j s = Some x" for j x
      using store_inv_session_ref [OF assms(1) that] by simp
    have "arrays (addChatMessages i tms ?s0) ?r = arrays ?s0 ?r" for tms
    proof (rule arrays_addChatMessages_other)
      fix x assume "getSession i ?s0 = Some x"
      then show "chatHistory x \<noteq> ?r" using fresh [of i x] by (simp add: getSession_def)
    qed
    then have "arrays (mirrored ?m i now ?s0) ?r = arrays ?s0 ?r"
      by (simp add: mirrored_def mh)
    then have ar: "arrays (snd ?c) ?r = ts" using ce by simp
    have g: "getEscalation eid (snd ?c) = Some (fst ?c)" by (rule getEscalation_created)
    have h: "history (fst ?c) = ?r" using ce by simp
    have first: "escalationHistory eid (snd ?c) = Some ts"
      using g h ar by (simp add: escalationHistory_def)
    have later: "escalationHistory eid (addChatMessage j m2 now2 (snd ?c)) = Some ts" for j
    proof -
      have "chatHistory x \<noteq> history (fst ?c)" if "getSession j (snd ?c) = Some x" for x
        using that fresh [of j x] ce fm h by (simp add: getSession_def)
      then show ?thesis
        using escalationHistory_addChatMessage_other [OF g, of j m2 now2] h ar by simp
    qed
    show ?thesis using first later by (simp add: st)
  qed
  show ?thesis using shared own by blast
qed

theorem escalation_history_shared_unless_supplied_witness:
  "store_inv store_s1 \<and> ''s1'' \<noteq> [] \<and> hasSession ''s1'' store_s1
   \<and> getEscalationBySessionId ''s1'' store_s1 = None
   \<and> escalationHistory ''esc_1''
       (addChatMessage ''s1'' turn_more ''t5''
          (fst (snd (onEscalate round_double wire_plain 1 (Some ''s1'') ''esc_1'' ''t2'' store_s1)))) =
       Some (historyContents ''s1'' store_s1 @ [pushedMessage ''t5'' turn_more])
   \<and> escalationHistory ''esc_1''
       (addChatMessage ''s1'' turn_more ''t5''
          (fst (snd (onEscalate round_double (wire_plain\<lparr>w_fullHistory := Some [turn_hi]\<rparr>) 1 (Some ''s1'')
                       ''esc_1'' ''t2'' store_s1)))) =
       Some [turn_hi]"
proof -
  have i: "store_inv store_s1" by code_simp
  have n: "''s1'' \<noteq> []" by simp
  have h: "hasSession ''s1'' store_s1" by code_simp
  have none: "getEscalationBySessionId ''s1'' store_s1 = None" by code_simp
  have w1: "w_fullHistory wire_plain = None" by (simp add: wire_plain_def)
  have w2: "w_fullHistory (wire_plain\<lparr>w_fullHistory := Some [turn_hi]\<rparr>) = Some [turn_hi]"
    by simp
  show ?thesis
    using i n h none w1 w2
      escalation_history_shared_unless_supplied
        [OF i n h none, of wire_plain "''esc_1''" round_double 1 "''t2''" turn_more "''t5''"]
      escalation_history_shared_unless_supplied
        [OF i n h none, of "wire_plain\<lparr>w_fullHistory := Some [turn_hi]\<rparr>" "''esc_1''" round_double 1 "''t2''"
           turn_more "''t5''"]
    by simp
qed

text \<open>The claim as stated fails: after an \<open>ESCALATE\<close> without \<open>fullHistory\<close>, one more
  chat turn on the session lengthens the escalation's history.\<close>

theorem escalation_history_counterexample:
  "escalationHistory ''esc_1'' store_escalated = Some [pushedMessage ''t1'' turn_hi]
   \<and> escalationHistory ''esc_1'' (addChatMessage ''s1'' turn_more ''t5'' store_escalated) =
       Some [pushedMessage ''t1'' turn_hi, pushedMessage ''t5'' turn_more]"
  by code_simp

text \<open>
  Claim C4. As stated: \<open>getAndClearAudioChunks\<close> returns the buffered chunks sorted by
  chunk index and empties the buffer.

  \<open>getAndClearAudioChunks\<close> returns the chunks in the order \<open>addAudioChunk\<close> received them
  and empties the buffer. The ordering by index is done by the consumer:
  \<open>forwardAudioToPython\<close> sorts the drained chunks by index (a stable sort of the same
  chunks) before it joins their data.
\<close>

theorem drain_arrival_order:
  assumes "getSession sid s = Some session"
  shows "fst (getAndClearAudioChunks sid (addAudioChunks sid cs s)) = audioChunks session @ cs
       \<and> getSession sid (snd (getAndClearAudioChunks sid (addAudioChunks sid cs s))) =
           Some (session\<lparr>audioChunks := []\<rparr>)
       \<and> combinedAudio ds = concat (map chunk_data (sort_key chunk_index ds))
       \<and> sorted (map chunk_index (sort_key chunk_index ds))
       \<and> mset (sort_key chunk_index ds) = mset ds"
  using getAndClearAudioChunks_present [OF getSession_addAudioChunks [OF assms, of cs]]
  by (simp add: combinedAudio_def)

theorem drain_arrival_order_witness:
  "getSession ''s1'' store_s1_voice =
     Some \<lparr>session_id = ''s1'', session_type = ''voice'', startTime = ''t0'',
           audioChunks = [], chatHistory = 0\<rparr>
   \<and> fst (getAndClearAudioChunks ''s1'' (addAudioChunks ''s1'' three_chunks store_s1_voice)) =
       three_chunks
   \<and> map_option audioChunks (getSession ''s1''
       (snd (getAndClearAudioChunks ''s1'' (addAudioChunks ''s1'' three_chunks store_s1_voice)))) =
       Some []
   \<and> combinedAudio three_chunks = ''abc''"
proof -
  have h: "getSession ''s1'' store_s1_voice =
     Some \<lparr>session_id = ''s1'', session_type = ''voice'', startTime = ''t0'',
           audioChunks = [], chatHistory = 0\<rparr>"
    by code_simp
  have c: "concat (map chunk_data (sort_key chunk_index three_chunks)) = ''abc''"
    by code_simp
  show ?thesis
    using h c drain_arrival_order [OF h, of three_chunks three_chunks] by simp
qed

text \<open>The claim as stated fails: chunks buffered with indices 0, 2, 1 drain as 0, 2, 1.\<close>

theorem drain_counterexample:
  "map chunk_index (fst (getAndClearAudioChunks ''s1'' store_three_chunks)) = [0, 2, 1]"
  by code_simp

text \<open>
  Claim C5. As stated: a resolved escalation is terminal, no operation changes its status
  away from \<open>resolved\<close>, and only the update to \<open>resolved\<close> stamps the resolution time and
  the resolver.

  \<open>updateEscalationStatus\<close> writes the requested status whatever the current one is, so
  \<open>ESCALATION_TAKE\<close> on a resolved escalation makes it \<open>in-progress\<close> and broadcasts
  \<open>ESCALATION_UPDATED\<close>. The second half holds: \<open>resolvedAt\<close> and \<open>resolvedBy\<close> are
  written only by an update to \<open>resolved\<close>, and an update to any other status keeps them.
\<close>

theorem updateStatus_overwrites:
  assumes "getEscalation i s = Some e"
  shows "getEscalation i (snd (updateEscalationStatus i st rb now s)) =
           Some (if st = ''resolved''
                 then e\<lparr>status := ''resolved'', resolvedAt := Some now, resolvedBy := rb\<rparr>
                 else e\<lparr>status := st\<rparr>)
      \<and> getEscalation i (fst (handleEscalationTake i w now s)) =
           Some (e\<lparr>status := ''in-progress''\<rparr>)
      \<and> snd (handleEscalationTake i w now s) =
           [Broadcast (ESCALATION_UPDATED (e\<lparr>status := ''in-progress''\<rparr>)
                         (arrays s (history e)))]
      \<and> getEscalation i (fst (handleEscalationResolve i rb w rs now s)) =
           Some (e\<lparr>status := ''resolved'', resolvedAt := Some now,
                   resolvedBy := Some (or_string rb ''admin'')\<rparr>)"
  by (simp add: updateEscalationStatus_present [OF assms] handleEscalationTake_def
        handleEscalationResolve_def getEscalation_def update_conv')

theorem updateStatus_overwrites_witness:
  "map_option status (getEscalation ''esc_1'' store_resolved) = Some ''resolved''
   \<and> map_option status
       (getEscalation ''esc_1'' (fst (handleEscalationTake ''esc_1'' 2 ''t4'' store_resolved))) =
       Some ''in-progress''
   \<and> map_option resolvedBy
       (getEscalation ''esc_1'' (fst (handleEscalationTake ''esc_1'' 2 ''t4'' store_resolved))) =
       Some (Some ''admin'')"
proof -
  have st: "map_option status (getEscalation ''esc_1'' store_resolved) = Some ''resolved''"
    by code_simp
  have rb: "map_option resolvedBy (getEscalation ''esc_1'' store_resolved) = Some (Some ''admin'')"
    by code_simp
  obtain e where e: "getEscalation ''esc_1'' store_resolved = Some e"
    using st by (cases "getEscalation ''esc_1'' store_resolved") auto
  show ?thesis
    using st rb e updateStatus_overwrites [OF e, of "''in-progress''" None "''t4''" 2 "\<lambda>_. 1"]
    by simp
qed

text \<open>The claim as stated fails: \<open>ESCALATION_TAKE\<close> moves a resolved escalation to
  \<open>in-progress\<close>.\<close>

theorem take_after_resolve_counterexample:
  "map_option status (getEscalation ''esc_1'' store_resolved) = Some ''resolved''
   \<and> map_option status
       (getEscalation ''esc_1'' (fst (handleEscalationTake ''esc_1'' 2 ''t4'' store_resolved))) =
       Some ''in-progress''"
  by code_simp

text \<open>
  Claim C6. For an escalation created without an explicit average, the average confidence is
  the arithmetic mean of the confidence values of the turns with sender \<open>user\<close> and non-null
  confidence (null if there are none), and the low-confidence count is the number of those
  turns with confidence below 0.70, both computed from the history handed to
  \<open>createEscalation\<close>. The mean is \<open>(c1 + ... + cn) / n\<close> in the double arithmetic of the
  source, for every rounding \<open>rnd\<close> that leaves the confidence values of the history (doubles)
  as they are; the code starts its sum at 0. User confidences 0.9, 0.5, 0.3 and null give
  \<open>(0.9 + 0.5 + 0.3) / 3\<close>, in doubles, and the count 2.
\<close>

theorem createEscalation_derived_stats:
  assumes "confidences_are_doubles rnd (arrays s r)"
  shows "avgConfidence (fst (createEscalation rnd eid now
       (params\<lparr>p_history := Some r, p_avgConfidence := None\<rparr>) s)) =
         spec_avgConfidence rnd (arrays s r)
   \<and> stats_avgConfidence (stats (fst (createEscalation rnd eid now
       (params\<lparr>p_history := Some r\<rparr>) s))) = spec_avgConfidence rnd (arrays s r)
   \<and> lowConfidenceCount (stats (fst (createEscalation rnd eid now
       (params\<lparr>p_history := Some r\<rparr>) s))) = spec_lowConfidenceCount (arrays s r)
   \<and> avgConfidence (fst (createEscalation round_double ''esc_1'' ''t0'' params_four_turns
                           store_four_turns))
       = Some (round_double (round_double (round_double (double_0_9 + 1 / 2) + double_0_3) / 3))
   \<and> lowConfidenceCount (stats (fst (createEscalation round_double ''esc_1'' ''t0''
        params_four_turns store_four_turns))) = 2"
proof -
  have a: "p_history (params\<lparr>p_history := Some r, p_avgConfidence := None\<rparr>) = Some r"
    and b: "p_history (params\<lparr>p_history := Some r\<rparr>) = Some r"
    and c: "p_avgConfidence (params\<lparr>p_history := Some r, p_avgConfidence := None\<rparr>) = None"
    by simp_all
  note sp = calculatedAvgConfidence_spec [OF assms]
  have "avgConfidence (fst (createEscalation rnd eid now
       (params\<lparr>p_history := Some r, p_avgConfidence := None\<rparr>) s)) =
         spec_avgConfidence rnd (arrays s r)"
    using createEscalation_stat_fields [OF a, of rnd eid now s]
    by (simp only: c option.case sp)
  moreover have "stats_avgConfidence (stats (fst (createEscalation rnd eid now
       (params\<lparr>p_history := Some r\<rparr>) s))) = spec_avgConfidence rnd (arrays s r)"
    using createEscalation_stat_fields [OF b, of rnd eid now s]
    by (simp only: sp)
  moreover have "lowConfidenceCount (stats (fst (createEscalation rnd eid now
       (params\<lparr>p_history := Some r\<rparr>) s))) = spec_lowConfidenceCount (arrays s r)"
    using createEscalation_stat_fields [OF b, of rnd eid now s]
    by (simp only: lowConfidenceCount_spec)
  ultimately show ?thesis using four_turns_example by blast
qed

text \<open>With IEEE rounding the mean of the example is the double 0.5666666666666667.\<close>

theorem createEscalation_derived_stats_witness:
  "confidences_are_doubles round_double (arrays store_four_turns 0)
   \<and> avgConfidence (fst (createEscalation round_double ''esc_1'' ''t0''
        (params_four_turns\<lparr>p_history := Some 0, p_avgConfidence := None\<rparr>) store_four_turns)) =
       spec_avgConfidence round_double four_user_turns
   \<and> spec_avgConfidence round_double four_user_turns =
       Some (2552039788843281 / 4503599627370496)
   \<and> spec_lowConfidenceCount four_user_turns = 2"
proof -
  have d: "confidences_are_doubles round_double (arrays store_four_turns 0)" by code_simp
  have a: "arrays store_four_turns 0 = four_user_turns" by (simp add: store_four_turns_def)
  have v: "spec_avgConfidence round_double four_user_turns =
       Some (2552039788843281 / 4503599627370496)" by code_simp
  have l: "spec_lowConfidenceCount four_user_turns = 2" by code_simp
  show ?thesis
    using d v l
      createEscalation_derived_stats [OF d, of "''esc_1''" "''t0''" params_four_turns]
    by (simp add: a)
qed



text \<open>
  Claim C8. Deleting a session is idempotent: a second \<open>deleteSession\<close> changes nothing
  more, \<open>deleteSession\<close> for an id without a session leaves a well-formed store as it was,
  and \<open>SESSION_END\<close> for an unknown id (or without id) deletes nothing and emits nothing.
  \<open>deleteSession\<close> has no error result.
\<close>

theorem deleteSession_idempotent:
  "deleteSession i (deleteSession i s) = deleteSession i s
   \<and> (store_inv s \<and> \<not> hasSession i s \<longrightarrow> deleteSession i s = s)
   \<and> (\<not> hasSession i s \<longrightarrow> handleSessionEnd (Some i) s = (s, []))
   \<and> handleSessionEnd None s = (s, [])"
  using deleteSession_absent [of s i]
  by (simp add: deleteSession_twice handleSessionEnd_def)

theorem deleteSession_idempotent_witness:
  "store_inv store_s1 \<and> \<not> hasSession ''s2'' store_s1
   \<and> deleteSession ''s2'' store_s1 = store_s1
   \<and> handleSessionEnd (Some ''s2'') store_s1 = (store_s1, [])
   \<and> deleteSession ''s1'' (deleteSession ''s1'' store_s1) = deleteSession ''s1'' store_s1"
proof -
  have i: "store_inv store_s1" by code_simp
  have h: "\<not> hasSession ''s2'' store_s1" by code_simp
  show ?thesis
    using i h deleteSession_idempotent [of "''s2''" store_s1]
      deleteSession_idempotent [of "''s1''" store_s1]
    by simp
qed

text \<open>
  Claim C9. With the handler of \<open>HomePage\<close> registered for state changes, a \<open>log\<close> message
  \<open>started_talking\<close> on the data channel leaves the bot state \<open>listening\<close>, from any state the
  page was in (\<open>speaking\<close> included) and whatever log callback is registered.
\<close>

theorem started_talking_sets_listening:
  "botState (handleDataChannelMessage ao
       (svc\<lparr>onStateChangeCallback := Some onStateChangeHandler\<rparr>)
       \<lparr>dc_type = ''log'', dc_payload = Text ''started_talking''\<rparr> p) = ''listening''"
  by (simp add: handleDataChannelMessage_def onStateChangeHandler_def Let_def)

text \<open>
  Claim C10. As stated: \<open>addChatMessage\<close> stores the confidence as null when the supplied one
  is absent or falsy, the score 0 included, and so a user turn appended with confidence 0 is
  left out of the escalation's average and low-confidence count.

  The first half holds. The second does not hold of the escalation the handler creates: a
  turn with a confidence reaches \<open>addChatMessage\<close> through the \<open>fullHistory\<close> of an \<open>ESCALATE\<close>
  message, and that escalation is computed from \<open>fullHistory\<close> itself, not from the copies
  stored in the session. For a \<open>fullHistory\<close> holding a user turn with confidence 0, the
  session's stored copy of the turn has confidence null and adds no confidence score to the
  session's history, while the escalation counts the turn as a user message, as a
  low-confidence turn and in the denominator of its average.
\<close>

theorem zero_confidence_null_in_session_counted_in_escalation:
  assumes "store_inv s" and "i \<noteq> []" and "hasSession i s"
    and "getEscalationBySessionId i s = None"
    and "w_fullHistory wire =
           Some (pre @ m\<lparr>sender := ''user'', confidence := Some 0\<rparr> # post)"
  shows "confidence (pushedMessage now' m') =
           (if confidence m' = None \<or> confidence m' = Some 0 then None else confidence m')
    \<and> historyContents i (fst (snd (onEscalate rnd wire w (Some i) eid now s))) =
        historyContents i s @ map (pushedMessage now) pre @
          (pushedMessage now m)\<lparr>sender := ''user'', confidence := None\<rparr> #
          map (pushedMessage now) post
    \<and> (\<exists>e. getEscalation eid (fst (snd (onEscalate rnd wire w (Some i) eid now s))) = Some e
           \<and> userMessages (stats e) = Suc (length (userMessagesOf (pre @ post)))
           \<and> lowConfidenceCount (stats e) =
               Suc (length (filter (\<lambda>c. c < double_0_7) (confidenceScores (pre @ post))))
           \<and> stats_avgConfidence (stats e) =
               Some (rnd (foldl (\<lambda>a b. rnd (a + b)) 0
                            (confidenceScores pre @ 0 # confidenceScores post)
                          / of_nat (Suc (length (confidenceScores (pre @ post)))))))
    \<and> confidenceScores (historyContents i (fst (snd (onEscalate rnd wire w (Some i) eid now s)))) =
        confidenceScores (historyContents i s @ map (pushedMessage now) (pre @ post))"
proof -
  obtain session where sess: "getSession i s = Some session"
    using assms(3) by (auto simp: hasSession_def getSession_def)
  let ?t0 = "m\<lparr>sender := ''user'', confidence := Some 0\<rparr>"
  let ?ts = "pre @ ?t0 # post"
  let ?r = "nextRef s"
  let ?a = "chatHistory session"
  let ?s0 = "s\<lparr>arrays := (arrays s)(?r := ?ts), nextRef := Suc ?r\<rparr>"
  let ?msg = "toMessage wire (Some ?r)"
  let ?p = "escalationParams ?msg i session ?r"
  let ?s1 = "mirrored ?msg i now ?s0"
  let ?c = "createEscalation rnd eid now ?p ?s1"
  have mh: "m_fullHistory ?msg = Some ?r" by (simp add: toMessage_def)
  have sess0: "getSession i ?s0 = Some session" using sess by (simp add: getSession_def)
  have none0: "getEscalationBySessionId i ?s0 = None"
    using assms(4) by (simp add: getEscalationBySessionId_def)
  have st: "fst (snd (onEscalate rnd wire w (Some i) eid now s)) = snd ?c"
    using handleEscalation_new [OF assms(2) sess0 none0, of rnd ?msg w eid now]
    by (simp add: onEscalate_def parseEscalate_def assms(5) historyArg_def mh)
  have ph: "p_history ?p = Some ?r" by (simp add: escalationParams_def)
  note ce = createEscalation_Some [OF ph, of rnd eid now ?s1]
  have ne: "?a \<noteq> ?r" using store_inv_session_ref [OF assms(1) sess] by simp
  have s1: "?s1 = addChatMessages i (map (Pair now) ?ts) ?s0"
    by (simp add: mirrored_def mh)
  have ar: "arrays ?s1 ?r = ?ts"
  proof -
    have "arrays (addChatMessages i (map (Pair now) ?ts) ?s0) ?r = arrays ?s0 ?r"
    proof (rule arrays_addChatMessages_other)
      fix x assume "getSession i ?s0 = Some x"
      then show "chatHistory x \<noteq> ?r" using sess0 ne by simp
    qed
    then show ?thesis by (simp add: s1)
  qed
  have pm: "pushedMessage now ?t0 = (pushedMessage now m)\<lparr>sender := ''user'', confidence := None\<rparr>"
    by (simp add: pushedMessage_def or_null_number_def)
  have sess1: "getSession i (snd ?c) = Some session"
    using sess0 ce frame_mirrored [of ?msg i now ?s0] by (simp add: getSession_def)
  have hc0: "historyContents i ?s0 = historyContents i s"
    using ne by (simp add: historyContents_present [OF sess0] historyContents_present [OF sess])
  have "historyContents i (snd ?c) = arrays ?s1 ?a"
    using ce by (simp add: historyContents_present [OF sess1])
  also have "\<dots> = historyContents i ?s1"
    using sess0 frame_mirrored [of ?msg i now ?s0]
    by (simp add: historyContents_def getSessionHistory_def getSession_def)
  also have "\<dots> = historyContents i ?s0 @ map (pushedMessage now) ?ts"
    by (simp only: s1 historyContents_addChatMessages [OF sess0] map_Pair_pushed)
  finally have hc: "historyContents i (snd ?c) =
      historyContents i s @ map (pushedMessage now) pre @
        (pushedMessage now m)\<lparr>sender := ''user'', confidence := None\<rparr> #
        map (pushedMessage now) post"
    by (simp add: hc0 pm)
  have g: "getEscalation eid (snd ?c) = Some (fst ?c)" by (rule getEscalation_created)
  note sf = createEscalation_stat_fields [OF ph, of rnd eid now ?s1, unfolded ar]
  have cs: "confidenceScores ?ts = confidenceScores pre @ 0 # confidenceScores post"
    by (simp add: confidenceScores_def userMessagesOf_def)
  have um: "length (userMessagesOf ?ts) = Suc (length (userMessagesOf (pre @ post)))"
    by (simp add: userMessagesOf_def)
  have low: "length (filter (\<lambda>c. c < double_0_7) (confidenceScores ?ts)) =
               Suc (length (filter (\<lambda>c. c < double_0_7) (confidenceScores (pre @ post))))"
    unfolding cs by (simp add: confidenceScores_append double_0_7_def)
  have avg: "calculatedAvgConfidence rnd ?ts =
               Some (rnd (foldl (\<lambda>a b. rnd (a + b)) 0
                            (confidenceScores pre @ 0 # confidenceScores post)
                          / of_nat (Suc (length (confidenceScores (pre @ post))))))"
    unfolding calculatedAvgConfidence_def cs by (simp add: confidenceScores_append)
  have c1: "confidence (pushedMessage now' m') =
           (if confidence m' = None \<or> confidence m' = Some 0 then None else confidence m')"
    by (rule confidence_pushedMessage)
  have c3: "\<exists>e. getEscalation eid (snd ?c) = Some e
           \<and> userMessages (stats e) = Suc (length (userMessagesOf (pre @ post)))
           \<and> lowConfidenceCount (stats e) =
               Suc (length (filter (\<lambda>c. c < double_0_7) (confidenceScores (pre @ post))))
           \<and> stats_avgConfidence (stats e) =
               Some (rnd (foldl (\<lambda>a b. rnd (a + b)) 0
                            (confidenceScores pre @ 0 # confidenceScores post)
                          / of_nat (Suc (length (confidenceScores (pre @ post))))))"
    using g sf um low avg by simp
  have c4: "confidenceScores (historyContents i (snd ?c)) =
        confidenceScores (historyContents i s @ map (pushedMessage now) (pre @ post))"
    by (simp only: hc) (simp add: confidenceScores_def userMessagesOf_def)
  show ?thesis unfolding st using c1 hc c3 c4 by blast
qed

theorem zero_confidence_null_in_session_counted_in_escalation_witness:
  "store_inv store_s1_voice \<and> ''s1'' \<noteq> [] \<and> hasSession ''s1'' store_s1_voice
   \<and> getEscalationBySessionId ''s1'' store_s1_voice = None
   \<and> historyContents ''s1''
        (fst (snd (onEscalate round_double (wire_plain\<lparr>w_fullHistory := Some [turn_zero]\<rparr>) 1
                     (Some ''s1'') ''esc_1'' ''t2'' store_s1_voice))) =
       [(pushedMessage ''t2'' turn_zero)\<lparr>sender := ''user'', confidence := None\<rparr>]
   \<and> (\<exists>e. getEscalation ''esc_1''
          (fst (snd (onEscalate round_double (wire_plain\<lparr>w_fullHistory := Some [turn_zero]\<rparr>) 1
                       (Some ''s1'') ''esc_1'' ''t2'' store_s1_voice))) = Some e
         \<and> lowConfidenceCount (stats e) = 1)"
proof -
  have i: "store_inv store_s1_voice" by code_simp
  have n: "''s1'' \<noteq> []" by simp
  have h: "hasSession ''s1'' store_s1_voice" by code_simp
  have none: "getEscalationBySessionId ''s1'' store_s1_voice = None" by code_simp
  have w: "w_fullHistory (wire_plain\<lparr>w_fullHistory := Some [turn_zero]\<rparr>) =
             Some ([] @ turn_zero\<lparr>sender := ''user'', confidence := Some 0\<rparr> # [])"
    by (simp add: turn_zero_def)
  have e: "historyContents ''s1'' store_s1_voice = []" by code_simp
  have c: "confidenceScores [] = []" by (simp add: confidenceScores_def userMessagesOf_def)
  show ?thesis
    using i n h none
      zero_confidence_null_in_session_counted_in_escalation
        [OF i n h none w, of "''t2''" turn_zero round_double 1 "''esc_1''" "''t2''"]
    by (auto simp: e c)
qed

text \<open>The claim as stated fails: a voice session receives \<open>ESCALATE\<close> with one user turn of
  confidence 0; the session stores the turn with confidence null, and the escalation has
  low-confidence count 1 and average 0.\<close>

theorem zero_confidence_counterexample:
  "map confidence
     (historyContents ''s1''
        (fst (snd (onEscalate round_double (wire_plain\<lparr>w_fullHistory := Some [turn_zero]\<rparr>) 1
                     (Some ''s1'') ''esc_1'' ''t2'' store_s1_voice)))) = [None]
   \<and> map_option stats
       (getEscalation ''esc_1''
          (fst (snd (onEscalate round_double (wire_plain\<lparr>w_fullHistory := Some [turn_zero]\<rparr>) 1
                       (Some ''s1'') ''esc_1'' ''t2'' store_s1_voice)))) =
       Some \<lparr>totalTurns = 1, userMessages = 1, botMessages = 0, lowConfidenceCount = 1,
             stats_avgConfidence = Some 0\<rparr>"
  by code_simp

end
